theory Spec2Isabelle
  imports Main "HOL-Library.Word" "HOL-Library.AList"
begin

section \<open>The watch-and-list cache (cacher.go)\<close>

text \<open>
  A shallow embedding of \<^verbatim>\<open>staging/src/k8s.io/apiserver/pkg/storage/cacher/cacher.go\<close>.
  The Cacher is a struct mutated under locks by several goroutines. Each source function
  is embedded as a pure function on the fields it reads and writes, executed atomically
  where the source holds \<^verbatim>\<open>c.Lock()\<close>. What a function obtains from a collaborator whose
  code lives in another file (the versioner, the readiness gate, the watch cache, the
  backing store, the methods of a cacheWatcher) is taken as a parameter: a record holding
  the result of each such call. A value that another goroutine may change between two reads
  (the readiness generation) is supplied once per read.
\<close>

subsection \<open>Resource versions, errors, events\<close>

text \<open>Resource versions are \<^verbatim>\<open>uint64\<close>.\<close>

type_synonym rv = "64 word"

text \<open>
  \<^verbatim>\<open>metav1.Status\<close>, as far as newErrWatcher fills it in, and the three kinds of
  \<^verbatim>\<open>error\<close> value that the type switch of newErrWatcher tells apart. A KeyNotFound storage
  error is a plain error (neither a runtime.Object nor a *StatusError); it keeps the key
  and the revision it was built with.
\<close>

record Status =
  StatusStatus :: string
  StatusMessage :: string
  StatusReason :: string
  StatusCode :: int

datatype error =
    StatusError Status
  | ObjectError string
  | KeyNotFoundError string rv
  | PlainError string

text \<open>The \<^verbatim>\<open>Error()\<close> text of an error value.\<close>

fun Error_text :: "error \<Rightarrow> string" where
  "Error_text (StatusError s) = StatusMessage s"
| "Error_text (ObjectError m) = m"
| "Error_text (KeyNotFoundError k v) = ''key not found: '' @ k"
| "Error_text (PlainError m) = m"

text \<open>\<^verbatim>\<open>errors.NewServiceUnavailable(reason)\<close>: a *StatusError with code 503.\<close>

definition NewServiceUnavailable :: "string \<Rightarrow> error" where
  "NewServiceUnavailable reason =
     StatusError \<lparr>StatusStatus = ''Failure'', StatusMessage = reason,
                  StatusReason = ''ServiceUnavailable'', StatusCode = 503\<rparr>"

text \<open>\<^verbatim>\<open>storage.NewKeyNotFoundError(key, int64(rv))\<close>; the revision keeps its 64 bits.\<close>

definition NewKeyNotFoundError :: "string \<Rightarrow> rv \<Rightarrow> error" where
  "NewKeyNotFoundError key v = KeyNotFoundError key v"

subsection \<open>Graceful termination: Cacher.Stop\<close>

text \<open>
  The fields Stop works on: the \<^verbatim>\<open>stopped\<close> flag and whether \<^verbatim>\<open>stopCh\<close> has been closed.
  Closing a closed channel panics in Go, so Stop returns a sum: \<open>Inl\<close> is the panic.
  The calls Stop makes on other objects are returned as a list, in the order made.
\<close>

record StopState =
  stopped :: bool
  stopChClosed :: bool

datatype panic = CloseOfClosedChannel

datatype stop_effect = ReadyStop | CloseStopCh | StopWgWait

definition Stop :: "StopState \<Rightarrow> panic + (stop_effect list \<times> StopState)" where
  "Stop c =
     (if stopped c then Inr ([], c)
      else
        let c1 = c\<lparr>stopped := True\<rparr> in
        if stopChClosed c1 then Inl CloseOfClosedChannel
        else Inr ([ReadyStop, CloseStopCh, StopWgWait], c1\<lparr>stopChClosed := True\<rparr>))"

text \<open>The state NewCacherFromConfig builds: not stopped, \<^verbatim>\<open>stopCh\<close> freshly made.\<close>

definition newStopState :: StopState where
  "newStopState = \<lparr>stopped = False, stopChClosed = False\<rparr>"

text \<open>\<open>n\<close> calls of Stop in a row; the effects are concatenated, a panic ends the run.\<close>

fun Stop_times :: "nat \<Rightarrow> StopState \<Rightarrow> panic + (stop_effect list \<times> StopState)" where
  "Stop_times 0 c = Inr ([], c)"
| "Stop_times (Suc n) c =
     (case Stop c of
        Inl p \<Rightarrow> Inl p
      | Inr (es, c') \<Rightarrow>
          (case Stop_times n c' of
             Inl p \<Rightarrow> Inl p
           | Inr (es', c'') \<Rightarrow> Inr (es @ es', c'')))"

subsection \<open>Objects, request options, store elements\<close>

datatype EventType = Added | Modified | Deleted | Bookmark | Error

datatype 'o Object = Plain 'o | CachingObject 'o

record GetOptions =
  IgnoreNotFound :: bool
  ResourceVersion :: string

text \<open>
  \<^verbatim>\<open>storage.SelectionPredicate\<close>. Of the field selector this file uses only
  \<^verbatim>\<open>pred.Field.RequiresExactMatch(field)\<close>, which is the field \<open>RequiresExactMatch\<close>
  (\<open>Some value\<close> when it answers \<^verbatim>\<open>ok\<close>). \<^verbatim>\<open>Limit\<close> is an \<^verbatim>\<open>int64\<close>, only ever compared with 0.
\<close>

record SelectionPredicate =
  RequiresExactMatch :: "string \<Rightarrow> string option"
  IndexFields :: "string list"
  Limit :: int
  Continue :: string
  AllowWatchBookmarks :: bool

record ListOptions =
  ResourceVersion :: string
  ResourceVersionMatch :: string
  Predicate :: SelectionPredicate
  Recursive :: bool
  ProgressNotify :: bool
  SendInitialEvents :: "bool option"

definition ResourceVersionMatchNotOlderThan :: string where
  "ResourceVersionMatchNotOlderThan = ''NotOlderThan''"

text \<open>
  What the watch cache's store hands out is an \<^verbatim>\<open>interface{}\<close> that the callers assert to
  be a \<^verbatim>\<open>*storeElement\<close>.
\<close>

record 'o storeElement =
  Key :: string
  Object :: "'o Object"
  Labels :: "string \<rightharpoonup> string"
  Fields :: "string \<rightharpoonup> string"

datatype 'o cacheItem = StoreElement "'o storeElement" | NotStoreElement

subsection \<open>Events\<close>

text \<open>
  A \<^verbatim>\<open>runtime.Object\<close> is a plain object or one wrapped in a \<^verbatim>\<open>*cachingObject\<close>. Of a
  watchCacheEvent the model keeps the fields this file reads; \<^verbatim>\<open>PrevObject\<close> is \<open>None\<close>
  for \<^verbatim>\<open>nil\<close>, and a key missing from \<^verbatim>\<open>ObjFields\<close> reads as the empty string, as in Go.
\<close>

record 'o watchCacheEvent =
  Type :: EventType
  Object :: "'o Object"
  PrevObject :: "'o Object option"
  ObjFields :: "string \<rightharpoonup> string"
  ResourceVersion :: rv

definition fieldOf :: "(string \<rightharpoonup> string) \<Rightarrow> string \<Rightarrow> string" where
  "fieldOf m k = (case m k of None \<Rightarrow> [] | Some v \<Rightarrow> v)"

fun baseObjectThreadUnsafe :: "'o Object \<Rightarrow> 'o Object" where
  "baseObjectThreadUnsafe (CachingObject x) = Plain x"
| "baseObjectThreadUnsafe (Plain x) = Plain x"

subsection \<open>The watcher registry\<close>

text \<open>
  A \<^verbatim>\<open>*cacheWatcher\<close> is a reference of type \<open>'w\<close>; the number a watcher is filed under
  is a Go \<^verbatim>\<open>int\<close>, 64 bits wide here, whose increment wraps. A Go map is an association
  list with the operations of HOL-Library.AList: \<open>map_of\<close> looks a key up, \<open>AList.update\<close>
  stores (in place, or at the end for a new key), \<open>AList.delete\<close> removes. A \<^verbatim>\<open>range\<close>
  loop visits the entries in list order; Go leaves the order open, and no theorem below
  depends on it. Reading a missing key of a map of maps yields the \<^verbatim>\<open>nil\<close> map, which
  reads as empty.
\<close>

type_synonym 'w watchersMap = "(64 word \<times> 'w) list"

definition watchersMap_addWatcher :: "'w \<Rightarrow> 64 word \<Rightarrow> 'w watchersMap \<Rightarrow> 'w watchersMap" where
  "watchersMap_addWatcher w number wm = AList.update number w wm"

text \<open>The second component is the watcher handed to \<^verbatim>\<open>done\<close>, if any.\<close>

definition watchersMap_deleteWatcher :: "64 word \<Rightarrow> 'w watchersMap \<Rightarrow> 'w watchersMap \<times> 'w option" where
  "watchersMap_deleteWatcher number wm =
     (case map_of wm number of
        Some watcher \<Rightarrow> (AList.delete number wm, Some watcher)
      | None \<Rightarrow> (wm, None))"

definition watchersMap_terminateAll :: "'w watchersMap \<Rightarrow> 'w watchersMap \<times> 'w list" where
  "watchersMap_terminateAll wm = ([], map snd wm)"

record namespacedName =
  namespace :: string
  name :: string

record 'w indexedWatchers =
  allWatchers :: "(namespacedName \<times> 'w watchersMap) list"
  valueWatchers :: "(string \<times> 'w watchersMap) list"

definition lookupWatchers :: "('k \<times> 'w watchersMap) list \<Rightarrow> 'k \<Rightarrow> 'w watchersMap" where
  "lookupWatchers m k = (case map_of m k of None \<Rightarrow> [] | Some wm \<Rightarrow> wm)"

text \<open>
  Both branches of addWatcher do the same on their map: make an empty inner map for a key
  that has none, then file the watcher in the inner map, which mutates it in place.
\<close>

definition addTo ::
  "('k \<times> 'w watchersMap) list \<Rightarrow> 'k \<Rightarrow> 'w \<Rightarrow> 64 word \<Rightarrow> ('k \<times> 'w watchersMap) list" where
  "addTo m k w number =
     (let m1 = (if map_of m k = None then AList.update k [] m else m)
      in AList.update k (watchersMap_addWatcher w number (lookupWatchers m1 k)) m1)"

definition indexedWatchers_addWatcher ::
  "'w indexedWatchers \<Rightarrow> 'w \<Rightarrow> 64 word \<Rightarrow> namespacedName \<Rightarrow> string \<Rightarrow> bool \<Rightarrow> 'w indexedWatchers" where
  "indexedWatchers_addWatcher i w number scope val supported =
     (if supported then i\<lparr>valueWatchers := addTo (valueWatchers i) val w number\<rparr>
      else i\<lparr>allWatchers := addTo (allWatchers i) scope w number\<rparr>)"

text \<open>
  deleteWatcher mutates the inner map in place, which the outer map shows only where the
  key is present; an inner map left empty is removed from the outer map.
\<close>

definition deleteFrom ::
  "('k \<times> 'w watchersMap) list \<Rightarrow> 'k \<Rightarrow> 64 word \<Rightarrow> ('k \<times> 'w watchersMap) list \<times> 'w option" where
  "deleteFrom m k number =
     (let (wm, removed) = watchersMap_deleteWatcher number (lookupWatchers m k);
          m1 = (if map_of m k = None then m else AList.update k wm m)
      in (if length (lookupWatchers m1 k) = 0 then AList.delete k m1 else m1, removed))"

definition indexedWatchers_deleteWatcher ::
  "'w indexedWatchers \<Rightarrow> 64 word \<Rightarrow> namespacedName \<Rightarrow> string \<Rightarrow> bool \<Rightarrow> 'w indexedWatchers \<times> 'w option" where
  "indexedWatchers_deleteWatcher i number scope val supported =
     (if supported then
        let (vw, removed) = deleteFrom (valueWatchers i) val number
        in (i\<lparr>valueWatchers := vw\<rparr>, removed)
      else
        let (aw, removed) = deleteFrom (allWatchers i) scope number
        in (i\<lparr>allWatchers := aw\<rparr>, removed))"

text \<open>The watchers of a map of maps, in \<^verbatim>\<open>range\<close> order.\<close>

definition watchersIn :: "('k \<times> 'w watchersMap) list \<Rightarrow> 'w list" where
  "watchersIn m = concat (map (\<lambda>(k, watchers). map snd watchers) m)"

text \<open>
  terminateAll empties every inner map, handing each watcher to \<^verbatim>\<open>done\<close>, and then
  replaces both outer maps by empty ones. The second component lists the watchers handed
  to \<^verbatim>\<open>done\<close>.
\<close>

definition indexedWatchers_terminateAll :: "'w indexedWatchers \<Rightarrow> 'w indexedWatchers \<times> 'w list" where
  "indexedWatchers_terminateAll i =
     (\<lparr>allWatchers = [], valueWatchers = []\<rparr>,
      concat (map (\<lambda>(k, watchers). snd (watchersMap_terminateAll watchers)) (allWatchers i))
      @ concat (map (\<lambda>(k, watchers). snd (watchersMap_terminateAll watchers))
                  (valueWatchers i)))"

subsection \<open>The bookmark time buckets\<close>

text \<open>
  Bucket ids are seconds since \<^verbatim>\<open>createTime\<close> (\<^verbatim>\<open>int64\<close>, far from its bounds). The clock
  is outside the model: addWatcher is given the bucket id computed from
  \<^verbatim>\<open>w.nextBookmarkTime\<close> (\<open>None\<close> when that returns \<^verbatim>\<open>ok = false\<close>), popExpiredWatchers the
  current bucket id.
\<close>

record 'w watcherBookmarkTimeBuckets =
  watchersBuckets :: "(int \<times> 'w list) list"
  startBucketID :: int

definition bookmarkBuckets_addWatcher ::
  "int option \<Rightarrow> 'w watcherBookmarkTimeBuckets \<Rightarrow> 'w \<Rightarrow> 'w watcherBookmarkTimeBuckets \<times> bool" where
  "bookmarkBuckets_addWatcher nextBucket t w =
     (case nextBucket of
        None \<Rightarrow> (t, False)
      | Some b \<Rightarrow>
          let bucketID = (if b < startBucketID t then startBucketID t else b);
              watchers = (case map_of (watchersBuckets t) bucketID of None \<Rightarrow> [] | Some ws \<Rightarrow> ws)
          in (t\<lparr>watchersBuckets := AList.update bucketID (watchers @ [w]) (watchersBuckets t)\<rparr>,
              True))"

function popExpiredLoop ::
  "int \<Rightarrow> 'w watcherBookmarkTimeBuckets \<Rightarrow> 'w list list
   \<Rightarrow> 'w list list \<times> 'w watcherBookmarkTimeBuckets" where
  "popExpiredLoop currentBucketID t expiredWatchers =
     (if startBucketID t \<le> currentBucketID then
        (case map_of (watchersBuckets t) (startBucketID t) of
           Some watchers \<Rightarrow>
             popExpiredLoop currentBucketID
               (t\<lparr>watchersBuckets := AList.delete (startBucketID t) (watchersBuckets t),
                   startBucketID := startBucketID t + 1\<rparr>)
               (expiredWatchers @ [watchers])
         | None \<Rightarrow>
             popExpiredLoop currentBucketID (t\<lparr>startBucketID := startBucketID t + 1\<rparr>)
               expiredWatchers)
      else (expiredWatchers, t))"
  by pat_completeness auto
termination
  by (relation "measure (\<lambda>(cur, t, e). nat (cur + 1 - startBucketID t))") auto

definition popExpiredWatchers ::
  "int \<Rightarrow> 'w watcherBookmarkTimeBuckets \<Rightarrow> 'w list list \<times> 'w watcherBookmarkTimeBuckets" where
  "popExpiredWatchers currentBucketID t = popExpiredLoop currentBucketID t []"

subsection \<open>The Cacher and event dispatch\<close>

record 'o indexedTriggerFunc =
  indexName :: string
  indexerFunc :: "'o Object \<Rightarrow> string"

text \<open>
  The fields of the Cacher that registration and dispatch work on; \<^verbatim>\<open>indexedTrigger\<close> is
  \<open>None\<close> for \<^verbatim>\<open>nil\<close>.
\<close>

record ('w, 'o) Cacher =
  indexedTrigger :: "'o indexedTriggerFunc option"
  watcherIdx :: "64 word"
  watchers :: "'w indexedWatchers"
  dispatching :: bool
  watchersBuffer :: "'w list"
  blockedWatchers :: "'w list"
  watchersToStop :: "'w list"
  bookmarkWatchers :: "'w watcherBookmarkTimeBuckets"
  expiredBookmarkWatchers :: "'w list"

definition triggerValuesThreadUnsafe ::
  "('w, 'o) Cacher \<Rightarrow> 'o watchCacheEvent \<Rightarrow> string list \<times> bool" where
  "triggerValuesThreadUnsafe c event =
     (case indexedTrigger c of
        None \<Rightarrow> ([], False)
      | Some trig \<Rightarrow>
          let result = [indexerFunc trig (baseObjectThreadUnsafe (Object event))] in
          (case PrevObject event of
             None \<Rightarrow> (result, True)
           | Some prev \<Rightarrow>
               let prevTriggerValue = indexerFunc trig (baseObjectThreadUnsafe prev) in
               if hd result \<noteq> prevTriggerValue
               then (result @ [prevTriggerValue], True) else (result, True)))"

text \<open>
  What dispatch asks of the watchers and of the clock: whether \<^verbatim>\<open>nonblockingAdd\<close> finds
  room in a watcher's channel, whether \<^verbatim>\<open>add\<close> gets the event in (given whether the shared
  timer is still armed), the \<^verbatim>\<open>stopped\<close> field of a watcher, the bucket of its next
  bookmark, the current bucket, and how \<^verbatim>\<open>newCachingObject\<close> and
  \<^verbatim>\<open>updateResourceVersion\<close> wrap an object.
\<close>

record ('w, 'o) dispatchEnv =
  nonblockingAddOk :: "'w \<Rightarrow> bool"
  addOk :: "'w \<Rightarrow> bool \<Rightarrow> bool"
  watcherStopped :: "'w \<Rightarrow> bool"
  nextBookmarkBucket :: "'w \<Rightarrow> int option"
  currentBucketID :: int
  newCachingObject :: "'o Object option \<Rightarrow> error + 'o Object"
  updateResourceVersion :: "'o Object \<Rightarrow> rv \<Rightarrow> 'o Object"

text \<open>The calls dispatch makes on watchers, on the time budget and on the timer.\<close>

datatype ('w, 'o) dispatchCall =
    NonblockingAdd 'w "'o watchCacheEvent"
  | BlockingAdd 'w "'o watchCacheEvent" bool
  | TakeAvailable
  | TimerReset
  | TimerStop
  | ReturnUnused
  | StopLocked 'w

definition setCachingObjects ::
  "('w, 'o) dispatchEnv \<Rightarrow> 'o watchCacheEvent \<Rightarrow> 'o watchCacheEvent" where
  "setCachingObjects env event =
     (case Type event of
        Added \<Rightarrow> (case newCachingObject env (Some (Object event)) of
                    Inr object \<Rightarrow> event\<lparr>Object := object\<rparr> | Inl err \<Rightarrow> event)
      | Modified \<Rightarrow> (case newCachingObject env (Some (Object event)) of
                    Inr object \<Rightarrow> event\<lparr>Object := object\<rparr> | Inl err \<Rightarrow> event)
      | Deleted \<Rightarrow> (case newCachingObject env (PrevObject event) of
                    Inr object \<Rightarrow>
                      event\<lparr>PrevObject :=
                        Some (updateResourceVersion env object (ResourceVersion event))\<rparr>
                  | Inl err \<Rightarrow> event)
      | _ \<Rightarrow> event)"

definition startDispatchingBookmarkEventsLocked ::
  "('w, 'o) dispatchEnv \<Rightarrow> ('w, 'o) Cacher \<Rightarrow> ('w, 'o) Cacher" where
  "startDispatchingBookmarkEventsLocked env c =
     (let (expired, buckets) = popExpiredWatchers (currentBucketID env) (bookmarkWatchers c);
          live = filter (\<lambda>watcher. \<not> watcherStopped env watcher) (concat expired)
      in c\<lparr>bookmarkWatchers := buckets,
            watchersBuffer := watchersBuffer c @ live,
            expiredBookmarkWatchers := expiredBookmarkWatchers c @ live\<rparr>)"

definition startDispatching ::
  "('w, 'o) dispatchEnv \<Rightarrow> 'o watchCacheEvent \<Rightarrow> ('w, 'o) Cacher \<Rightarrow> ('w, 'o) Cacher" where
  "startDispatching env event c =
     (let (triggerValues, supported) = triggerValuesThreadUnsafe c event;
          c1 = c\<lparr>dispatching := True, watchersBuffer := []\<rparr>
      in if Type event = Bookmark then startDispatchingBookmarkEventsLocked env c1
         else
           let ns = fieldOf (ObjFields event) ''metadata.namespace'';
               nm = fieldOf (ObjFields event) ''metadata.name'';
               aw = allWatchers (watchers c1);
               vw = valueWatchers (watchers c1);
               b1 = (if length ns > 0 then
                       (if length nm > 0
                        then map snd (lookupWatchers aw \<lparr>namespace = ns, name = nm\<rparr>) else [])
                       @ map snd (lookupWatchers aw \<lparr>namespace = ns, name = []\<rparr>)
                     else []);
               b2 = (if length nm > 0
                     then map snd (lookupWatchers aw \<lparr>namespace = [], name = nm\<rparr>) else []);
               b3 = map snd (lookupWatchers aw \<lparr>namespace = [], name = []\<rparr>);
               b4 = (if supported
                     then concat (map (\<lambda>triggerValue. map snd (lookupWatchers vw triggerValue))
                                    triggerValues)
                     else watchersIn vw)
           in c1\<lparr>watchersBuffer := b1 @ b2 @ b3 @ b4\<rparr>)"

text \<open>
  The loop over the blocked watchers: once an \<^verbatim>\<open>add\<close> reports that the timer fired, the
  timer is \<^verbatim>\<open>nil\<close> for the watchers after it. Returns the calls and whether the timer is
  still there.
\<close>

fun addBlocked ::
  "('w, 'o) dispatchEnv \<Rightarrow> 'o watchCacheEvent \<Rightarrow> 'w list \<Rightarrow> bool
   \<Rightarrow> ('w, 'o) dispatchCall list \<times> bool" where
  "addBlocked env event [] timer = ([], timer)"
| "addBlocked env event (watcher # rest) timer =
     (let (calls, timer') =
            addBlocked env event rest (if addOk env watcher timer then timer else False)
      in (BlockingAdd watcher event timer # calls, timer'))"

text \<open>The body of dispatchEvent between startDispatching and the deferred finishDispatching.\<close>

definition deliverEvent ::
  "('w, 'o) dispatchEnv \<Rightarrow> 'o watchCacheEvent \<Rightarrow> ('w, 'o) Cacher
   \<Rightarrow> ('w, 'o) dispatchCall list \<times> ('w, 'o) Cacher" where
  "deliverEvent env event c =
     (if Type event = Bookmark then
        (map (\<lambda>watcher. NonblockingAdd watcher event) (watchersBuffer c), c)
      else
        let wcEvent = setCachingObjects env event;
            c1 = c\<lparr>blockedWatchers :=
                     filter (\<lambda>watcher. \<not> nonblockingAddOk env watcher) (watchersBuffer c)\<rparr>;
            firstPass = map (\<lambda>watcher. NonblockingAdd watcher wcEvent) (watchersBuffer c)
        in if length (blockedWatchers c1) > 0 then
             let (calls, timer) = addBlocked env wcEvent (blockedWatchers c1) True
             in (firstPass @ [TakeAvailable, TimerReset] @ calls
                   @ (if timer then [TimerStop] else []) @ [ReturnUnused], c1)
           else (firstPass, c1))"

text \<open>
  finishDispatching. \<^verbatim>\<open>stopLocked\<close> marks a watcher stopped, so the requeueing loop skips
  the watchers stopped just before it as well as those stopped earlier.
\<close>

fun requeueExpired ::
  "('w, 'o) dispatchEnv \<Rightarrow> ('w \<Rightarrow> bool) \<Rightarrow> 'w list \<Rightarrow> 'w watcherBookmarkTimeBuckets
   \<Rightarrow> 'w watcherBookmarkTimeBuckets" where
  "requeueExpired env isStopped [] t = t"
| "requeueExpired env isStopped (watcher # rest) t =
     (if isStopped watcher then requeueExpired env isStopped rest t
      else requeueExpired env isStopped rest
             (fst (bookmarkBuckets_addWatcher (nextBookmarkBucket env watcher) t watcher)))"

definition finishDispatching ::
  "('w, 'o) dispatchEnv \<Rightarrow> ('w, 'o) Cacher \<Rightarrow> ('w, 'o) dispatchCall list \<times> ('w, 'o) Cacher" where
  "finishDispatching env c =
     (let isStopped = (\<lambda>watcher. watcherStopped env watcher \<or> watcher \<in> set (watchersToStop c))
      in (map StopLocked (watchersToStop c),
          c\<lparr>dispatching := False,
            watchersToStop := [],
            bookmarkWatchers :=
              requeueExpired env isStopped (expiredBookmarkWatchers c) (bookmarkWatchers c),
            expiredBookmarkWatchers := []\<rparr>))"

definition dispatchEvent ::
  "('w, 'o) dispatchEnv \<Rightarrow> 'o watchCacheEvent \<Rightarrow> ('w, 'o) Cacher
   \<Rightarrow> ('w, 'o) dispatchCall list \<times> ('w, 'o) Cacher" where
  "dispatchEvent env event c =
     (let c1 = startDispatching env event c;
          (calls, c2) = deliverEvent env event c1;
          (stops, c3) = finishDispatching env c2
      in (calls @ stops, c3))"

subsection \<open>The dispatcher loop\<close>

text \<open>
  dispatchEvents is an endless \<^verbatim>\<open>select\<close> loop. The model runs it over the cases the
  \<^verbatim>\<open>select\<close> takes, in order: an event from \<^verbatim>\<open>c.incoming\<close>, that channel found closed, a
  tick of the bookmark timer, \<^verbatim>\<open>stopCh\<close> closed. It returns the calls the loop makes
  (dispatchEvent with its argument, popExpiredWatchers) and the value of
  \<^verbatim>\<open>lastProcessedResourceVersion\<close> when the inputs are used up or the loop has returned.
  \<^verbatim>\<open>newFunc\<close> yields the empty object of the resource type; \<^verbatim>\<open>UpdateObject\<close> is the
  versioner's, \<open>Inl\<close> its error.
\<close>

datatype 'o loopInput =
    IncomingEvent "'o watchCacheEvent"
  | IncomingClosed
  | BookmarkTimerTick
  | StopChClosed

datatype 'o loopCall =
    DispatchEvent "'o watchCacheEvent"
  | PopExpiredWatchers

record 'o loopEnv =
  newFunc :: "'o Object"
  UpdateObject :: "'o Object \<Rightarrow> rv \<Rightarrow> error + 'o Object"

fun dispatchEvents :: "'o loopEnv \<Rightarrow> rv \<Rightarrow> 'o loopInput list \<Rightarrow> 'o loopCall list \<times> rv" where
  "dispatchEvents env lastProcessedResourceVersion [] = ([], lastProcessedResourceVersion)"
| "dispatchEvents env lastProcessedResourceVersion (IncomingClosed # rest) =
     ([], lastProcessedResourceVersion)"
| "dispatchEvents env lastProcessedResourceVersion (StopChClosed # rest) =
     ([], lastProcessedResourceVersion)"
| "dispatchEvents env lastProcessedResourceVersion (IncomingEvent event # rest) =
     (let (calls, final) = dispatchEvents env (ResourceVersion event) rest
      in ((if Type event \<noteq> Bookmark then [DispatchEvent event] else []) @ calls, final))"
| "dispatchEvents env lastProcessedResourceVersion (BookmarkTimerTick # rest) =
     (let (calls, final) = dispatchEvents env lastProcessedResourceVersion rest
      in if lastProcessedResourceVersion = 0 then (PopExpiredWatchers # calls, final)
         else
           (case UpdateObject env (newFunc env) lastProcessedResourceVersion of
              Inl err \<Rightarrow> (calls, final)
            | Inr object \<Rightarrow>
                (DispatchEvent \<lparr>Type = Bookmark, Object = object, PrevObject = None,
                                ObjFields = Map.empty,
                                ResourceVersion = lastProcessedResourceVersion\<rparr> # calls,
                 final)))"

subsection \<open>What a request obtains from its collaborators\<close>

text \<open>
  One record for a Get, GetList or Watch call. Feature gates: \<open>APIListChunking\<close>,
  \<open>WatchList\<close>. Versioner: \<open>ParseResourceVersion\<close>, \<open>UpdateList\<close> (its error, if any).
  Readiness gate: \<open>readyCheck\<close> is \<^verbatim>\<open>c.ready.check()\<close>, \<open>readyWait\<close> the error of
  \<^verbatim>\<open>c.ready.wait(ctx)\<close>, \<open>waitAndReadGeneration\<close> the generation seen on passing the gate
  or the error, \<open>checkAndReadGeneration\<close> what the gate answers later, under the cacher
  lock. Reflection: the errors of \<^verbatim>\<open>conversion.EnforcePtr\<close> and \<^verbatim>\<open>meta.GetItemsPtr\<close>, and
  whether the list value is a slice. Watch cache: \<open>WaitUntilFreshAndGet\<close> (the item, if it
  exists, and the revision read at), \<open>WaitUntilFreshAndList\<close> (items, revision, index
  used), \<open>watchCacheResourceVersion\<close> (the field \<^verbatim>\<open>resourceVersion\<close> while the watch
  cache is read-locked), \<open>waitUntilFreshAndBlock\<close>, \<open>getIntervalFromStoreLocked\<close>,
  \<open>getAllEventsSinceLocked\<close>. Filtering: \<open>hasPathPrefix\<close>,
  \<open>MatchesObjectAttributes\<close>. Request context: \<open>requestNamespace\<close> is
  \<^verbatim>\<open>request.NamespaceFrom(ctx)\<close>, \<open>requestInfoName\<close> the name of a non-nil
  \<^verbatim>\<open>request.RequestInfoFrom(ctx)\<close>. Backing store, for
  getCurrentResourceVersionFromStorage: whether \<^verbatim>\<open>newListFunc\<close> is set, the error of
  \<^verbatim>\<open>c.storage.GetList\<close>, what \<^verbatim>\<open>meta.ListAccessor\<close> returns (an error, a \<^verbatim>\<open>nil\<close> accessor,
  or the list's resource version string), and \<^verbatim>\<open>strconv.Atoi\<close>. Watcher: \<open>newCacheWatcher\<close>
  is the reference of the watcher just allocated, \<open>newWatcherNextBucket\<close> the bucket of
  its next bookmark.
\<close>

record ('w, 'o, 'iv) requestEnv =
  APIListChunking :: bool
  WatchList :: bool
  ParseResourceVersion :: "string \<Rightarrow> error + rv"
  UpdateList :: "rv \<Rightarrow> error option"
  readyCheck :: bool
  readyWait :: "error option"
  waitAndReadGeneration :: "error + int"
  checkAndReadGeneration :: "int \<times> bool"
  EnforcePtr :: "error option"
  GetItemsPtr :: "error option"
  listValIsSlice :: bool
  WaitUntilFreshAndGet :: "rv \<Rightarrow> string \<Rightarrow> error + ('o cacheItem option \<times> rv)"
  WaitUntilFreshAndList ::
    "rv \<Rightarrow> SelectionPredicate \<Rightarrow> error + ('o cacheItem list \<times> rv \<times> string)"
  watchCacheResourceVersion :: rv
  waitUntilFreshAndBlock :: "rv \<Rightarrow> error option"
  getIntervalFromStoreLocked :: "error + 'iv"
  getAllEventsSinceLocked :: "rv \<Rightarrow> error + 'iv"
  hasPathPrefix :: "string \<Rightarrow> string \<Rightarrow> bool"
  MatchesObjectAttributes ::
    "SelectionPredicate \<Rightarrow> (string \<rightharpoonup> string) \<Rightarrow> (string \<rightharpoonup> string) \<Rightarrow> bool"
  requestNamespace :: "string option"
  requestInfoName :: "string option"
  newListFuncDefined :: bool
  storageGetList :: "error option"
  ListAccessor :: "error + string option"
  Atoi :: "string \<Rightarrow> error + int"
  newCacheWatcher :: 'w
  newWatcherNextBucket :: "int option"

subsection \<open>Get\<close>

text \<open>
  The outcomes of Get: the call handed to \<^verbatim>\<open>c.storage.Get\<close> with the same key and
  options; an error returned; \<^verbatim>\<open>nil\<close> returned with the object written to \<^verbatim>\<open>objPtr\<close>;
  \<^verbatim>\<open>nil\<close> returned with \<^verbatim>\<open>objPtr\<close> set to its zero value.
\<close>

datatype 'o getReturn =
    GetDelegated string GetOptions
  | GetError error
  | GetFound "'o Object"
  | GetZero

definition Get :: "('w, 'o, 'iv) requestEnv \<Rightarrow> string \<Rightarrow> GetOptions \<Rightarrow> 'o getReturn" where
  "Get env key opts =
     (if GetOptions.ResourceVersion opts = [] then GetDelegated key opts
      else
        case ParseResourceVersion env (GetOptions.ResourceVersion opts) of
          Inl err \<Rightarrow> GetError err
        | Inr getRV \<Rightarrow>
            if getRV = 0 \<and> \<not> readyCheck env then GetDelegated key opts
            else
              (case readyWait env of
                 Some err \<Rightarrow> GetError (NewServiceUnavailable (Error_text err))
               | None \<Rightarrow>
                   (case EnforcePtr env of
                      Some err \<Rightarrow> GetError err
                    | None \<Rightarrow>
                        (case WaitUntilFreshAndGet env getRV key of
                           Inl err \<Rightarrow> GetError err
                         | Inr (obj, readResourceVersion) \<Rightarrow>
                             (case obj of
                                Some (StoreElement elem) \<Rightarrow> GetFound (storeElement.Object elem)
                              | Some NotStoreElement \<Rightarrow>
                                  GetError (PlainError ''non *storeElement returned from storage'')
                              | None \<Rightarrow>
                                  if \<not> IgnoreNotFound opts
                                  then GetError (NewKeyNotFoundError key readResourceVersion)
                                  else GetZero)))))"

subsection \<open>GetList\<close>

definition shouldDelegateList :: "bool \<Rightarrow> ListOptions \<Rightarrow> bool" where
  "shouldDelegateList pagingEnabled opts =
     (let resourceVersion = ListOptions.ResourceVersion opts;
          pred = Predicate opts;
          match = ResourceVersionMatch opts;
          hasContinuation = (pagingEnabled \<and> length (Continue pred) > 0);
          hasLimit = (pagingEnabled \<and> Limit pred > 0 \<and> resourceVersion \<noteq> ''0'');
          unsupportedMatch = (match \<noteq> [] \<and> match \<noteq> ResourceVersionMatchNotOlderThan)
      in resourceVersion = [] \<or> hasContinuation \<or> hasLimit \<or> unsupportedMatch)"

definition filterWithAttrsFunction ::
  "('w, 'o, 'iv) requestEnv \<Rightarrow> string \<Rightarrow> SelectionPredicate
   \<Rightarrow> string \<Rightarrow> (string \<rightharpoonup> string) \<Rightarrow> (string \<rightharpoonup> string) \<Rightarrow> bool" where
  "filterWithAttrsFunction env key p objKey label field =
     (if \<not> hasPathPrefix env objKey key then False
      else MatchesObjectAttributes env p label field)"

definition listItems ::
  "('w, 'o, 'iv) requestEnv \<Rightarrow> rv \<Rightarrow> string \<Rightarrow> SelectionPredicate \<Rightarrow> bool
   \<Rightarrow> error + ('o cacheItem list \<times> rv \<times> string)" where
  "listItems env listRV key pred recursive =
     (if \<not> recursive then
        (case WaitUntilFreshAndGet env listRV key of
           Inl err \<Rightarrow> Inl err
         | Inr (obj, readResourceVersion) \<Rightarrow>
             (case obj of
                Some item \<Rightarrow> Inr ([item], readResourceVersion, [])
              | None \<Rightarrow> Inr ([], readResourceVersion, [])))
      else WaitUntilFreshAndList env listRV pred)"

text \<open>The loop that keeps the objects passing the filter; a foreign item ends the call.\<close>

fun selectObjects ::
  "(string \<Rightarrow> (string \<rightharpoonup> string) \<Rightarrow> (string \<rightharpoonup> string) \<Rightarrow> bool) \<Rightarrow> 'o cacheItem list
   \<Rightarrow> 'o Object list \<Rightarrow> error + 'o Object list" where
  "selectObjects filt [] selectedObjects = Inr selectedObjects"
| "selectObjects filt (NotStoreElement # rest) selectedObjects =
     Inl (PlainError ''non *storeElement returned from storage'')"
| "selectObjects filt (StoreElement elem # rest) selectedObjects =
     selectObjects filt rest
       (if filt (Key elem) (Labels elem) (Fields elem)
        then selectedObjects @ [storeElement.Object elem] else selectedObjects)"

text \<open>
  The outcomes of GetList: handed to \<^verbatim>\<open>c.storage.GetList\<close>; an error; or \<^verbatim>\<open>nil\<close> with the
  selected objects as the list's items and the revision set on the list. The versioner is
  not \<^verbatim>\<open>nil\<close> where GetList tests it, having parsed the resource version before; tracing
  and metrics are left out.
\<close>

datatype 'o listReturn =
    ListDelegated string ListOptions
  | ListError error
  | ListServed "'o Object list" rv

definition GetList :: "('w, 'o, 'iv) requestEnv \<Rightarrow> string \<Rightarrow> ListOptions \<Rightarrow> 'o listReturn" where
  "GetList env key opts =
     (if shouldDelegateList (APIListChunking env) opts then ListDelegated key opts
      else
        case ParseResourceVersion env (ListOptions.ResourceVersion opts) of
          Inl err \<Rightarrow> ListError err
        | Inr listRV \<Rightarrow>
            if listRV = 0 \<and> \<not> readyCheck env then ListDelegated key opts
            else
              (case readyWait env of
                 Some err \<Rightarrow> ListError (NewServiceUnavailable (Error_text err))
               | None \<Rightarrow>
                   (case GetItemsPtr env of
                      Some err \<Rightarrow> ListError err
                    | None \<Rightarrow>
                        (case EnforcePtr env of
                           Some err \<Rightarrow> ListError err
                         | None \<Rightarrow>
                             if \<not> listValIsSlice env
                             then ListError (PlainError ''need a pointer to slice'')
                             else
                               (case listItems env listRV key (Predicate opts) (Recursive opts) of
                                  Inl err \<Rightarrow> ListError err
                                | Inr (objs, readResourceVersion, indexUsed) \<Rightarrow>
                                    (case selectObjects
                                            (filterWithAttrsFunction env key (Predicate opts))
                                            objs [] of
                                       Inl err \<Rightarrow> ListError err
                                     | Inr selectedObjects \<Rightarrow>
                                         (case UpdateList env readResourceVersion of
                                            Some err \<Rightarrow> ListError err
                                          | None \<Rightarrow>
                                              ListServed selectedObjects
                                                readResourceVersion)))))))"

subsection \<open>Watch\<close>

text \<open>
  A Go channel of watch events: its capacity, the events buffered in it, and whether it
  has been closed. newErrWatcher sends on a fresh channel with room for one event, which
  does not block, and closes it.
\<close>

datatype eventObject = StatusObject Status | ErrorAsObject error

record watchEvent =
  EventType :: EventType
  EventObject :: eventObject

record resultChan =
  capacity :: nat
  buffered :: "watchEvent list"
  closed :: bool

definition makeChan :: "nat \<Rightarrow> resultChan" where
  "makeChan n = \<lparr>capacity = n, buffered = [], closed = False\<rparr>"

definition sendChan :: "watchEvent \<Rightarrow> resultChan \<Rightarrow> resultChan" where
  "sendChan e ch = ch\<lparr>buffered := buffered ch @ [e]\<rparr>"

definition closeChan :: "resultChan \<Rightarrow> resultChan" where
  "closeChan ch = ch\<lparr>closed := True\<rparr>"

definition newErrWatcher :: "error \<Rightarrow> resultChan" where
  "newErrWatcher err =
     (let errEvent =
            \<lparr>EventType = Error,
             EventObject =
               (case err of
                  ObjectError m \<Rightarrow> ErrorAsObject err
                | StatusError st \<Rightarrow> StatusObject st
                | _ \<Rightarrow> StatusObject \<lparr>StatusStatus = ''Failure'', StatusMessage = Error_text err,
                                      StatusReason = ''InternalError'', StatusCode = 500\<rparr>)\<rparr>
      in closeChan (sendChan errEvent (makeChan 1)))"

definition newImmediateCloseWatcher :: resultChan where
  "newImmediateCloseWatcher = closeChan (makeChan 0)"

text \<open>
  What Watch returns: the call handed to \<^verbatim>\<open>c.storage.Watch\<close>; \<^verbatim>\<open>nil\<close> and an error; or a
  handle and a \<^verbatim>\<open>nil\<close> error. A handle is an errWatcher or an immediateCloseWatcher with
  its result channel, or the registered cacheWatcher, for which \<^verbatim>\<open>processInterval\<close> has
  been started on the interval and start revision given, with the bookmark-after revision
  set on it.
\<close>

record 'iv started =
  cacheInterval :: 'iv
  startWatchRV :: rv
  bookmarkAfterResourceVersion :: rv

datatype ('w, 'iv) watchInterface =
    ErrWatcher resultChan
  | ImmediateCloseWatcher resultChan
  | CacheWatcher 'w "'iv started"

datatype ('w, 'iv) watchReturn =
    WatchDelegated string ListOptions
  | WatchError error
  | WatchHandle "('w, 'iv) watchInterface"

definition getCurrentResourceVersionFromStorage :: "('w, 'o, 'iv) requestEnv \<Rightarrow> error + rv" where
  "getCurrentResourceVersionFromStorage env =
     (if \<not> newListFuncDefined env then Inl (PlainError ''newListFunction was not provided'')
      else
        case storageGetList env of
          Some err \<Rightarrow> Inl err
        | None \<Rightarrow>
            (case ListAccessor env of
               Inl err \<Rightarrow> Inl err
             | Inr None \<Rightarrow> Inl (PlainError ''unable to extract a list accessor'')
             | Inr (Some listRV) \<Rightarrow>
                 (case Atoi env listRV of
                    Inl err \<Rightarrow> Inl err
                  | Inr currentResourceVersion \<Rightarrow>
                      if currentResourceVersion = 0
                      then Inl (PlainError ''the current resource version must be greater than 0'')
                      else Inr (word_of_int currentResourceVersion))))"

text \<open>
  The three functions below return a closure \<^verbatim>\<open>func() uint64\<close> that is called later, with
  the watch cache read-locked. The closure is a function of the watch cache's
  \<^verbatim>\<open>resourceVersion\<close> at the time of the call, the only thing it can read.
\<close>

definition getCommonResourceVersionLockedFunc ::
  "('w, 'o, 'iv) requestEnv \<Rightarrow> rv \<Rightarrow> ListOptions \<Rightarrow> error + (rv \<Rightarrow> rv)" where
  "getCommonResourceVersionLockedFunc env parsedWatchResourceVersion opts =
     (if length (ListOptions.ResourceVersion opts) = 0 then
        (case getCurrentResourceVersionFromStorage env of
           Inl err \<Rightarrow> Inl err
         | Inr v \<Rightarrow> Inr (\<lambda>cacheRV. v))
      else if parsedWatchResourceVersion = 0 then Inr (\<lambda>cacheRV. cacheRV)
      else Inr (\<lambda>cacheRV. parsedWatchResourceVersion))"

definition getBookmarkAfterResourceVersionLockedFunc ::
  "('w, 'o, 'iv) requestEnv \<Rightarrow> rv \<Rightarrow> ListOptions \<Rightarrow> error + (rv \<Rightarrow> rv)" where
  "getBookmarkAfterResourceVersionLockedFunc env parsedResourceVersion opts =
     (if SendInitialEvents opts = None \<or> SendInitialEvents opts = Some False
         \<or> \<not> AllowWatchBookmarks (Predicate opts)
      then Inr (\<lambda>cacheRV. 0)
      else getCommonResourceVersionLockedFunc env parsedResourceVersion opts)"

definition getStartResourceVersionForWatchLockedFunc ::
  "('w, 'o, 'iv) requestEnv \<Rightarrow> rv \<Rightarrow> ListOptions \<Rightarrow> error + (rv \<Rightarrow> rv)" where
  "getStartResourceVersionForWatchLockedFunc env parsedWatchResourceVersion opts =
     (if SendInitialEvents opts = None \<or> SendInitialEvents opts = Some True
      then Inr (\<lambda>cacheRV. parsedWatchResourceVersion)
      else getCommonResourceVersionLockedFunc env parsedWatchResourceVersion opts)"

definition waitUntilWatchCacheFreshAndForceAllEvents ::
  "('w, 'o, 'iv) requestEnv \<Rightarrow> rv \<Rightarrow> ListOptions \<Rightarrow> bool \<times> error option" where
  "waitUntilWatchCacheFreshAndForceAllEvents env requestedWatchRV opts =
     (if SendInitialEvents opts \<noteq> None \<and> SendInitialEvents opts = Some True then
        let err = waitUntilFreshAndBlock env requestedWatchRV in (err = None, err)
      else (False, None))"

text \<open>The scope of a watch: from the request first, from the field selector second.\<close>

definition watchScope :: "('w, 'o, 'iv) requestEnv \<Rightarrow> SelectionPredicate \<Rightarrow> namespacedName" where
  "watchScope env pred =
     \<lparr>namespace =
        (case requestNamespace env of
           Some requestNs \<Rightarrow>
             if length requestNs > 0 then requestNs
             else (case RequiresExactMatch pred ''metadata.namespace'' of
                     Some selectorNamespace \<Rightarrow> selectorNamespace | None \<Rightarrow> [])
         | None \<Rightarrow>
             (case RequiresExactMatch pred ''metadata.namespace'' of
                Some selectorNamespace \<Rightarrow> selectorNamespace | None \<Rightarrow> [])),
      name =
        (case requestInfoName env of
           Some requestName \<Rightarrow>
             if length requestName > 0 then requestName
             else (case RequiresExactMatch pred ''metadata.name'' of
                     Some selectorName \<Rightarrow> selectorName | None \<Rightarrow> [])
         | None \<Rightarrow>
             (case RequiresExactMatch pred ''metadata.name'' of
                Some selectorName \<Rightarrow> selectorName | None \<Rightarrow> []))\<rparr>"

text \<open>The loop over \<^verbatim>\<open>pred.IndexFields\<close> that infers the trigger value of a watch.\<close>

fun triggerLoop ::
  "string \<Rightarrow> SelectionPredicate \<Rightarrow> string list \<Rightarrow> string \<times> bool \<Rightarrow> string \<times> bool" where
  "triggerLoop idx pred [] acc = acc"
| "triggerLoop idx pred (field # rest) acc =
     triggerLoop idx pred rest
       (if field = idx then
          (case RequiresExactMatch pred field of Some v \<Rightarrow> (v, True) | None \<Rightarrow> acc)
        else acc)"

definition watchTrigger :: "('w, 'o) Cacher \<Rightarrow> SelectionPredicate \<Rightarrow> string \<times> bool" where
  "watchTrigger c pred =
     (case indexedTrigger c of
        None \<Rightarrow> ([], False)
      | Some trig \<Rightarrow> triggerLoop (indexName trig) pred (IndexFields pred) ([], False))"

text \<open>
  The closure Watch runs under \<^verbatim>\<open>c.Lock()\<close>: it returns \<^verbatim>\<open>addedWatcher\<close> and the cacher.
\<close>

definition registerWatcherLocked ::
  "('w, 'o, 'iv) requestEnv \<Rightarrow> ('w, 'o) Cacher \<Rightarrow> 'w \<Rightarrow> bool \<Rightarrow> int \<Rightarrow> namespacedName \<Rightarrow> string
   \<Rightarrow> bool \<Rightarrow> bool \<times> ('w, 'o) Cacher" where
  "registerWatcherLocked env c watcher allowWatchBookmarks readyGeneration scope triggerValue
     triggerSupported =
     (let (generation, ok) = checkAndReadGeneration env in
      if generation \<noteq> readyGeneration \<or> \<not> ok then (False, c)
      else
        let c1 = c\<lparr>watchers :=
                     indexedWatchers_addWatcher (watchers c) watcher (watcherIdx c) scope
                       triggerValue triggerSupported\<rparr>;
            c2 = (if allowWatchBookmarks
                  then c1\<lparr>bookmarkWatchers :=
                            fst (bookmarkBuckets_addWatcher (newWatcherNextBucket env)
                                   (bookmarkWatchers c1) watcher)\<rparr>
                  else c1)
        in (True, c2\<lparr>watcherIdx := watcherIdx c2 + 1\<rparr>))"

text \<open>
  Watch from the point where the resource version is parsed and the readiness gate
  passed (line 532 on).
\<close>

definition watchAfterGate ::
  "('w, 'o, 'iv) requestEnv \<Rightarrow> ('w, 'o) Cacher \<Rightarrow> ListOptions \<Rightarrow> rv \<Rightarrow> int
   \<Rightarrow> ('w, 'iv) watchReturn \<times> ('w, 'o) Cacher" where
  "watchAfterGate env c opts requestedWatchRV readyGeneration =
     (let pred = Predicate opts;
          scope = watchScope env pred;
          (triggerValue, triggerSupported) = watchTrigger c pred
      in
      case getBookmarkAfterResourceVersionLockedFunc env requestedWatchRV opts of
        Inl err \<Rightarrow> (WatchHandle (ErrWatcher (newErrWatcher err)), c)
      | Inr bookmarkAfterResourceVersionFn \<Rightarrow>
      (case getStartResourceVersionForWatchLockedFunc env requestedWatchRV opts of
        Inl err \<Rightarrow> (WatchHandle (ErrWatcher (newErrWatcher err)), c)
      | Inr startWatchResourceVersionFn \<Rightarrow>
      let watcher = newCacheWatcher env in
      (case waitUntilWatchCacheFreshAndForceAllEvents env requestedWatchRV opts of
        (forceAllEvents, Some err) \<Rightarrow> (WatchHandle (ErrWatcher (newErrWatcher err)), c)
      | (forceAllEvents, None) \<Rightarrow>
      let startRV = startWatchResourceVersionFn (watchCacheResourceVersion env) in
      (case (if forceAllEvents then getIntervalFromStoreLocked env
             else getAllEventsSinceLocked env startRV) of
        Inl err \<Rightarrow> (WatchHandle (ErrWatcher (newErrWatcher err)), c)
      | Inr interval \<Rightarrow>
      let (addedWatcher, c') =
            registerWatcherLocked env c watcher (AllowWatchBookmarks pred) readyGeneration
              scope triggerValue triggerSupported
      in if \<not> addedWatcher
         then (WatchHandle (ImmediateCloseWatcher newImmediateCloseWatcher), c')
         else (WatchHandle (CacheWatcher watcher
                 \<lparr>cacheInterval = interval, startWatchRV = startRV,
                  bookmarkAfterResourceVersion =
                    bookmarkAfterResourceVersionFn (watchCacheResourceVersion env)\<rparr>), c')))))"

text \<open>The options Watch works with: SendInitialEvents is dropped when WatchList is off.\<close>

definition watchOptions :: "('w, 'o, 'iv) requestEnv \<Rightarrow> ListOptions \<Rightarrow> ListOptions" where
  "watchOptions env opts =
     (if \<not> WatchList env \<and> SendInitialEvents opts \<noteq> None
      then opts\<lparr>SendInitialEvents := None\<rparr> else opts)"

definition Watch ::
  "('w, 'o, 'iv) requestEnv \<Rightarrow> ('w, 'o) Cacher \<Rightarrow> string \<Rightarrow> ListOptions
   \<Rightarrow> ('w, 'iv) watchReturn \<times> ('w, 'o) Cacher" where
  "Watch env c key opts0 =
     (let opts = watchOptions env opts0
      in if SendInitialEvents opts = None \<and> ListOptions.ResourceVersion opts = []
         then (WatchDelegated key opts, c)
         else
           case ParseResourceVersion env (ListOptions.ResourceVersion opts) of
             Inl err \<Rightarrow> (WatchError err, c)
           | Inr requestedWatchRV \<Rightarrow>
               (case waitAndReadGeneration env of
                  Inl err \<Rightarrow> (WatchError (NewServiceUnavailable (Error_text err)), c)
                | Inr readyGeneration \<Rightarrow>
                    watchAfterGate env c opts requestedWatchRV readyGeneration))"

subsection \<open>Forgetting and terminating watchers\<close>

definition stopWatcherLocked ::
  "('w, 'o) Cacher \<Rightarrow> 'w \<Rightarrow> ('w, 'o) dispatchCall list \<times> ('w, 'o) Cacher" where
  "stopWatcherLocked c watcher =
     (if dispatching c then ([], c\<lparr>watchersToStop := watchersToStop c @ [watcher]\<rparr>)
      else ([StopLocked watcher], c))"

text \<open>
  The closure forgetWatcher builds for a watcher registered under \<open>index\<close>; the call
  \<^verbatim>\<open>w.setDrainInputBufferLocked\<close> on the watcher itself is left out.
\<close>

definition forgetWatcher ::
  "('w, 'o) Cacher \<Rightarrow> 64 word \<Rightarrow> namespacedName \<Rightarrow> string \<Rightarrow> bool
   \<Rightarrow> ('w, 'o) dispatchCall list \<times> ('w, 'o) Cacher" where
  "forgetWatcher c index scope triggerValue triggerSupported =
     (let (ws, removed) =
            indexedWatchers_deleteWatcher (watchers c) index scope triggerValue triggerSupported;
          c1 = c\<lparr>watchers := ws\<rparr>
      in case removed of None \<Rightarrow> ([], c1) | Some watcher \<Rightarrow> stopWatcherLocked c1 watcher)"

fun stopAllLocked ::
  "('w, 'o) Cacher \<Rightarrow> 'w list \<Rightarrow> ('w, 'o) dispatchCall list \<times> ('w, 'o) Cacher" where
  "stopAllLocked c [] = ([], c)"
| "stopAllLocked c (watcher # rest) =
     (let (calls, c1) = stopWatcherLocked c watcher;
          (calls', c2) = stopAllLocked c1 rest
      in (calls @ calls', c2))"

definition terminateAllWatchers ::
  "('w, 'o) Cacher \<Rightarrow> ('w, 'o) dispatchCall list \<times> ('w, 'o) Cacher" where
  "terminateAllWatchers c =
     (let (ws, terminated) = indexedWatchers_terminateAll (watchers c)
      in stopAllLocked (c\<lparr>watchers := ws\<rparr>) terminated)"

section \<open>Properties, as the specification words them\<close>

text \<open>
  Membership of a watcher in the two maps of the registry, and the invariant that no
  watcher is in both.
\<close>

definition inAllWatchers :: "'w indexedWatchers \<Rightarrow> 'w \<Rightarrow> bool" where
  "inAllWatchers r w = (w \<in> set (watchersIn (allWatchers r)))"

definition inValueWatchers :: "'w indexedWatchers \<Rightarrow> 'w \<Rightarrow> bool" where
  "inValueWatchers r w = (w \<in> set (watchersIn (valueWatchers r)))"

definition exclusive :: "'w indexedWatchers \<Rightarrow> bool" where
  "exclusive r = (\<forall>w \<in> set (watchersIn (allWatchers r)). w \<notin> set (watchersIn (valueWatchers r)))"

text \<open>
  The candidate set of an event as the specification gives it: the union of the four
  scopes of \<^verbatim>\<open>allWatchers\<close>, and of \<^verbatim>\<open>valueWatchers\<close> either the entries of the current and
  the previous trigger value (a trigger index is configured) or all of it.
\<close>

definition allWatchersAt :: "('w, 'o) Cacher \<Rightarrow> string \<Rightarrow> string \<Rightarrow> 'w set" where
  "allWatchersAt c ns nm =
     snd ` set (lookupWatchers (allWatchers (watchers c)) \<lparr>namespace = ns, name = nm\<rparr>)"

definition valueWatchersAt :: "('w, 'o) Cacher \<Rightarrow> string \<Rightarrow> 'w set" where
  "valueWatchersAt c v = snd ` set (lookupWatchers (valueWatchers (watchers c)) v)"

definition candidateWatchers :: "('w, 'o) Cacher \<Rightarrow> 'o watchCacheEvent \<Rightarrow> 'w set" where
  "candidateWatchers c event =
     (let ns = fieldOf (ObjFields event) ''metadata.namespace'';
          nm = fieldOf (ObjFields event) ''metadata.name''
      in allWatchersAt c ns nm \<union> allWatchersAt c ns [] \<union> allWatchersAt c [] nm
           \<union> allWatchersAt c [] []
           \<union> (case indexedTrigger c of
                None \<Rightarrow> set (watchersIn (valueWatchers (watchers c)))
              | Some trig \<Rightarrow>
                  (let cur = indexerFunc trig (baseObjectThreadUnsafe (Object event)) in
                   valueWatchersAt c cur
                   \<union> (case PrevObject event of
                        None \<Rightarrow> {}
                      | Some prevObject \<Rightarrow>
                          (let prev = indexerFunc trig (baseObjectThreadUnsafe prevObject)
                           in if prev \<noteq> cur then valueWatchersAt c prev else {})))))"

text \<open>
  For the dispatcher loop: the inputs under which the loop is still running, and the
  revision of the last event that arrived on \<^verbatim>\<open>c.incoming\<close> (0 when none has).
\<close>

fun running :: "'o loopInput list \<Rightarrow> bool" where
  "running [] = True"
| "running (IncomingEvent event # rest) = running rest"
| "running (BookmarkTimerTick # rest) = running rest"
| "running (IncomingClosed # rest) = False"
| "running (StopChClosed # rest) = False"

fun incomingEvents :: "'o loopInput list \<Rightarrow> 'o watchCacheEvent list" where
  "incomingEvents [] = []"
| "incomingEvents (IncomingEvent event # rest) = event # incomingEvents rest"
| "incomingEvents (x # rest) = incomingEvents rest"

definition lastRevision :: "'o loopInput list \<Rightarrow> rv" where
  "lastRevision ins =
     (case rev (incomingEvents ins) of [] \<Rightarrow> 0 | event # earlier \<Rightarrow> ResourceVersion event)"

text \<open>The bookmark event the loop builds on a tick.\<close>

definition bookmarkEvent :: "'o Object \<Rightarrow> rv \<Rightarrow> 'o watchCacheEvent" where
  "bookmarkEvent object v =
     \<lparr>Type = Bookmark, Object = object, PrevObject = None, ObjFields = Map.empty,
      ResourceVersion = v\<rparr>"

section \<open>A sample cacher and sample collaborators\<close>

text \<open>
  Concrete values on which the theorems below are instantiated. Watchers are numbers, an
  object is the name of the node it is bound to, an interval is the list of revisions it
  holds. The sample versioner reads decimal digits, the empty string and \<open>''0''\<close> as 0,
  and rejects anything else; the sample watch cache stands at revision 7, holds one pod,
  keeps the events from revision 3 on and answers a request from revision 0 with its
  current state.
\<close>

fun digitsValue :: "string \<Rightarrow> nat \<Rightarrow> nat option" where
  "digitsValue [] acc = Some acc"
| "digitsValue (ch # rest) acc =
     (let d = (of_char ch :: nat)
      in if 48 \<le> d \<and> d \<le> 57 then digitsValue rest (10 * acc + (d - 48)) else None)"

definition sampleParse :: "string \<Rightarrow> error + rv" where
  "sampleParse s =
     (if s = [] \<or> s = ''0'' then Inr 0
      else case digitsValue s 0 of
             Some n \<Rightarrow> if n < 2 ^ 64 then Inr (of_nat n)
                       else Inl (PlainError ''invalid resource version'')
           | None \<Rightarrow> Inl (PlainError ''invalid resource version''))"

definition sampleAtoi :: "string \<Rightarrow> error + int" where
  "sampleAtoi s =
     (if s = [] then Inl (PlainError ''invalid syntax'')
      else case digitsValue s 0 of
             Some n \<Rightarrow> Inr (int n)
           | None \<Rightarrow> Inl (PlainError ''invalid syntax''))"

definition samplePod :: "string storeElement" where
  "samplePod =
     \<lparr>Key = ''/pods/ns1/pod1'', storeElement.Object = Plain ''node-a'',
      Labels = Map.empty, Fields = [''spec.nodeName'' \<mapsto> ''node-a'']\<rparr>"

definition samplePredicate :: SelectionPredicate where
  "samplePredicate =
     \<lparr>RequiresExactMatch = (\<lambda>f. if f = ''spec.nodeName'' then Some ''node-a'' else None),
      IndexFields = [''spec.nodeName''], Limit = 0, Continue = [],
      AllowWatchBookmarks = True\<rparr>"

definition sampleListOptions :: ListOptions where
  "sampleListOptions =
     \<lparr>ListOptions.ResourceVersion = ''5'', ResourceVersionMatch = [],
      Predicate = samplePredicate,
      Recursive = True, ProgressNotify = False, SendInitialEvents = None\<rparr>"

definition sampleEnv :: "(nat, string, rv list) requestEnv" where
  "sampleEnv =
     \<lparr>APIListChunking = True, WatchList = True,
      ParseResourceVersion = sampleParse, UpdateList = (\<lambda>v. None),
      readyCheck = True, readyWait = None,
      waitAndReadGeneration = Inr 1, checkAndReadGeneration = (1, True),
      EnforcePtr = None, GetItemsPtr = None, listValIsSlice = True,
      WaitUntilFreshAndGet =
        (\<lambda>v key. if 7 < v then Inl (PlainError ''timeout'')
                  else if key = ''/pods/ns1/pod1'' then Inr (Some (StoreElement samplePod), 7)
                  else Inr (None, 7)),
      WaitUntilFreshAndList =
        (\<lambda>v pred. if 7 < v then Inl (PlainError ''timeout'')
                   else Inr ([StoreElement samplePod], 7, [])),
      watchCacheResourceVersion = 7,
      waitUntilFreshAndBlock = (\<lambda>v. if 7 < v then Some (PlainError ''timeout'') else None),
      getIntervalFromStoreLocked = Inr [7],
      getAllEventsSinceLocked =
        (\<lambda>v. if v = 0 then Inr [7]
              else if v < 3 then Inl (PlainError ''too old resource version'')
              else Inr (filter (\<lambda>u. v < u) [4, 6, 7])),
      hasPathPrefix = (\<lambda>objKey key. take (length key) objKey = key),
      MatchesObjectAttributes = (\<lambda>pred label field. True),
      requestNamespace = Some ''ns1'', requestInfoName = None,
      newListFuncDefined = True, storageGetList = None, ListAccessor = Inr (Some ''9''),
      Atoi = sampleAtoi,
      newCacheWatcher = 12, newWatcherNextBucket = Some 60\<rparr>"

definition sampleCacher :: "(nat, string) Cacher" where
  "sampleCacher =
     \<lparr>indexedTrigger =
        Some \<lparr>indexName = ''spec.nodeName'',
              indexerFunc = (\<lambda>obj. case obj of Plain n \<Rightarrow> n | CachingObject n \<Rightarrow> n)\<rparr>,
      watcherIdx = 2,
      watchers =
        \<lparr>allWatchers = [(\<lparr>namespace = ''ns1'', name = []\<rparr>, [(0, 10)])],
         valueWatchers = [(''node-a'', [(1, 11)])]\<rparr>,
      dispatching = False, watchersBuffer = [], blockedWatchers = [], watchersToStop = [],
      bookmarkWatchers = \<lparr>watchersBuckets = [(3, [11])], startBucketID = 0\<rparr>,
      expiredBookmarkWatchers = []\<rparr>"

definition sampleEvent :: "string watchCacheEvent" where
  "sampleEvent =
     \<lparr>Type = Added, Object = Plain ''node-a'', PrevObject = None,
      ObjFields = [''metadata.namespace'' \<mapsto> ''ns1'', ''metadata.name'' \<mapsto> ''pod1''],
      ResourceVersion = 8\<rparr>"

definition sampleDispatchEnv :: "(nat, string) dispatchEnv" where
  "sampleDispatchEnv =
     \<lparr>nonblockingAddOk = (\<lambda>w. w \<noteq> 11), addOk = (\<lambda>w timer. False),
      watcherStopped = (\<lambda>w. False), nextBookmarkBucket = (\<lambda>w. Some 65),
      currentBucketID = 5,
      newCachingObject =
        (\<lambda>obj. case obj of None \<Rightarrow> Inl (PlainError ''nil object'')
                | Some (Plain n) \<Rightarrow> Inr (CachingObject n)
                | Some (CachingObject n) \<Rightarrow> Inr (CachingObject n)),
      updateResourceVersion = (\<lambda>obj v. obj)\<rparr>"

definition sampleLoopEnv :: "string loopEnv" where
  "sampleLoopEnv = \<lparr>newFunc = Plain [], UpdateObject = (\<lambda>obj v. Inr obj)\<rparr>"

section \<open>Theorems\<close>

subsection \<open>Stop\<close>

lemma Stop_when_stopped: "stopped c \<Longrightarrow> Stop c = Inr ([], c)"
  by (simp add: Stop_def)

lemma Stop_times_stopped: "stopped c \<Longrightarrow> Stop_times n c = Inr ([], c)"
  by (induction n) (simp_all add: Stop_when_stopped)

lemma Stop_first:
  "\<not> stopped c \<Longrightarrow> \<not> stopChClosed c \<Longrightarrow>
   Stop c = Inr ([ReadyStop, CloseStopCh, StopWgWait], c\<lparr>stopped := True, stopChClosed := True\<rparr>)"
  by (simp add: Stop_def)

text \<open>
  C10. Stop is idempotent. On a cacher as constructed (not stopped, stop channel open),
  any number \<open>n + 1\<close> of Stop calls in a row never panics, leaves the same state as one
  call, and performs the effects of one call: the readiness gate is stopped, the stop
  channel closed and the wait group awaited exactly once, by the first call; every later
  call sees \<^verbatim>\<open>stopped\<close> and returns at once with no effect.
\<close>

theorem Stop_idempotent:
  "Stop_times (Suc n) newStopState = Stop newStopState
   \<and> Stop newStopState =
       Inr ([ReadyStop, CloseStopCh, StopWgWait], \<lparr>stopped = True, stopChClosed = True\<rparr>)
   \<and> Stop \<lparr>stopped = True, stopChClosed = True\<rparr>
       = Inr ([], \<lparr>stopped = True, stopChClosed = True\<rparr>)"
proof -
  have first: "Stop newStopState =
       Inr ([ReadyStop, CloseStopCh, StopWgWait], \<lparr>stopped = True, stopChClosed = True\<rparr>)"
    by (simp add: Stop_def newStopState_def)
  have later: "Stop_times n \<lparr>stopped = True, stopChClosed = True\<rparr>
       = Inr ([], \<lparr>stopped = True, stopChClosed = True\<rparr>)"
    by (rule Stop_times_stopped) simp
  have "Stop_times (Suc n) newStopState = Stop newStopState"
    by (simp add: first later)
  moreover have "Stop \<lparr>stopped = True, stopChClosed = True\<rparr>
       = Inr ([], \<lparr>stopped = True, stopChClosed = True\<rparr>)"
    by (rule Stop_when_stopped) simp
  ultimately show ?thesis using first by simp
qed

subsection \<open>The registry\<close>

lemma set_watchersIn: "set (watchersIn m) = (\<Union>(k, wm) \<in> set m. snd ` set wm)"
  by (auto simp: watchersIn_def)

lemma set_update_subset: "set (AList.update k v al) \<subseteq> insert (k, v) (set al)"
  by (induction al) auto

lemma in_set_update: "(k, v) \<in> set (AList.update k v al)"
  by (induction al) auto

lemma set_delete_subset: "set (AList.delete k al) \<subseteq> set al"
  by (induction al) auto

lemma watchersIn_update_subset:
  "set (watchersIn (AList.update k wm m)) \<subseteq> snd ` set wm \<union> set (watchersIn m)"
  using set_update_subset [of k wm m] by (fastforce simp: set_watchersIn)

lemma in_watchersIn: "(k, wm) \<in> set m \<Longrightarrow> x \<in> set wm \<Longrightarrow> snd x \<in> set (watchersIn m)"
  by (force simp: watchersIn_def)

lemma watchersIn_update_member:
  "snd ` set wm \<subseteq> set (watchersIn (AList.update k wm m))"
  using in_set_update [of k wm m] by (auto intro: in_watchersIn)

lemma watchersIn_delete_subset: "set (watchersIn (AList.delete k m)) \<subseteq> set (watchersIn m)"
  using set_delete_subset [of k m] by (fastforce simp: set_watchersIn)

lemma lookupWatchers_subset: "snd ` set (lookupWatchers m k) \<subseteq> set (watchersIn m)"
proof
  fix w assume "w \<in> snd ` set (lookupWatchers m k)"
  then obtain x where x: "x \<in> set (lookupWatchers m k)" "w = snd x" by blast
  then obtain wm where "map_of m k = Some wm" "x \<in> set wm"
    by (cases "map_of m k") (auto simp: lookupWatchers_def)
  then show "w \<in> set (watchersIn m)"
    using x in_watchersIn [of k wm m x] by (auto dest: map_of_SomeD)
qed

lemma lookupWatchers_update: "lookupWatchers (AList.update k wm m) k = wm"
  by (simp add: lookupWatchers_def update_conv')

lemma addWatcher_inner_subset:
  "snd ` set (watchersMap_addWatcher w number wm) \<subseteq> insert w (snd ` set wm)"
  using set_update_subset [of number w wm] by (fastforce simp: watchersMap_addWatcher_def)

lemma addWatcher_inner_lookup: "map_of (watchersMap_addWatcher w number wm) number = Some w"
  by (simp add: watchersMap_addWatcher_def update_conv')

lemma addWatcher_inner_member: "w \<in> snd ` set (watchersMap_addWatcher w number wm)"
  using in_set_update [of number w wm] by (force simp: watchersMap_addWatcher_def)

lemma addTo_subset: "set (watchersIn (addTo m k w number)) \<subseteq> insert w (set (watchersIn m))"
proof -
  define m1 where "m1 = (if map_of m k = None then AList.update k [] m else m)"
  have a: "set (watchersIn m1) \<subseteq> set (watchersIn m)"
    using watchersIn_update_subset [of k "[]" m] by (auto simp: m1_def)
  have "set (watchersIn (addTo m k w number)) \<subseteq> snd ` set (watchersMap_addWatcher w number (lookupWatchers m1 k)) \<union> set (watchersIn m1)"
    unfolding addTo_def Let_def m1_def [symmetric] by (rule watchersIn_update_subset)
  also have "\<dots> \<subseteq> insert w (snd ` set (lookupWatchers m1 k)) \<union> set (watchersIn m1)"
    using addWatcher_inner_subset [of w number "lookupWatchers m1 k"] by blast
  also have "\<dots> \<subseteq> insert w (set (watchersIn m1))"
    using lookupWatchers_subset [of m1 k] by blast
  finally show ?thesis using a by blast
qed

lemma addTo_lookup: "map_of (lookupWatchers (addTo m k w number) k) number = Some w"
  by (simp add: addTo_def Let_def lookupWatchers_update addWatcher_inner_lookup)

lemma addTo_member: "w \<in> set (watchersIn (addTo m k w number))"
  unfolding addTo_def Let_def
  using watchersIn_update_member addWatcher_inner_member by fast

lemma deleteFrom_subset: "set (watchersIn (fst (deleteFrom m k number))) \<subseteq> set (watchersIn m)"
proof -
  obtain wm removed where d: "watchersMap_deleteWatcher number (lookupWatchers m k) = (wm, removed)"
    by (cases "watchersMap_deleteWatcher number (lookupWatchers m k)")
  have wm: "snd ` set wm \<subseteq> snd ` set (lookupWatchers m k)"
    using d set_delete_subset [of number "lookupWatchers m k"]
    by (auto simp: watchersMap_deleteWatcher_def split: option.splits)
  define m1 where "m1 = (if map_of m k = None then m else AList.update k wm m)"
  have "set (watchersIn m1) \<subseteq> set (watchersIn m)"
    using watchersIn_update_subset [of k wm m] wm lookupWatchers_subset [of m k]
    by (auto simp: m1_def)
  moreover have "set (watchersIn (fst (deleteFrom m k number))) \<subseteq> set (watchersIn m1)"
    using watchersIn_delete_subset [of k m1]
    by (auto simp: deleteFrom_def d m1_def Let_def)
  ultimately show ?thesis by blast
qed

lemma exclusive_iff: "exclusive r \<longleftrightarrow> set (watchersIn (allWatchers r)) \<inter> set (watchersIn (valueWatchers r)) = {}"
  by (auto simp: exclusive_def)

lemma addWatcher_exclusive:
  assumes "exclusive r" "\<not> inAllWatchers r w" "\<not> inValueWatchers r w"
  shows "exclusive (indexedWatchers_addWatcher r w number scope val supported)"
  using assms addTo_subset [of "valueWatchers r" val w number]
    addTo_subset [of "allWatchers r" scope w number]
  by (auto simp: exclusive_iff indexedWatchers_addWatcher_def inAllWatchers_def inValueWatchers_def)

lemma addWatcher_filed:
  assumes "\<not> inAllWatchers r w" "\<not> inValueWatchers r w"
  shows "let r' = indexedWatchers_addWatcher r w number scope val supported in
         (supported \<longrightarrow> map_of (lookupWatchers (valueWatchers r') val) number = Some w
             \<and> inValueWatchers r' w \<and> \<not> inAllWatchers r' w)
       \<and> (\<not> supported \<longrightarrow> map_of (lookupWatchers (allWatchers r') scope) number = Some w
             \<and> inAllWatchers r' w \<and> \<not> inValueWatchers r' w)"
  using assms addTo_member [of w "valueWatchers r" val number]
    addTo_member [of w "allWatchers r" scope number]
  by (simp add: Let_def indexedWatchers_addWatcher_def inAllWatchers_def inValueWatchers_def
      addTo_lookup)

lemma deleteWatcher_exclusive:
  assumes "exclusive r"
  shows "exclusive (fst (indexedWatchers_deleteWatcher r number scope val supported))"
  using assms deleteFrom_subset [of "valueWatchers r" val number]
    deleteFrom_subset [of "allWatchers r" scope number]
  by (auto simp: exclusive_iff indexedWatchers_deleteWatcher_def split: prod.splits)

lemma terminateAll_exclusive: "exclusive (fst (indexedWatchers_terminateAll r))"
  by (simp add: exclusive_def indexedWatchers_terminateAll_def watchersIn_def)

lemma triggerLoop_acc:
  "triggerLoop idx pred fs acc =
     (if idx \<in> set fs \<and> RequiresExactMatch pred idx \<noteq> None
      then (the (RequiresExactMatch pred idx), True) else acc)"
  by (induction fs arbitrary: acc) (auto split: option.splits)

lemma watchTrigger_supported:
  "snd (watchTrigger c pred) \<longleftrightarrow>
     (\<exists>trig. indexedTrigger c = Some trig \<and> indexName trig \<in> set (IndexFields pred)
        \<and> RequiresExactMatch pred (indexName trig) \<noteq> None)"
  by (auto simp: watchTrigger_def triggerLoop_acc split: option.splits)

lemma watchTrigger_value:
  "snd (watchTrigger c pred) \<Longrightarrow> indexedTrigger c = Some trig \<Longrightarrow>
   RequiresExactMatch pred (indexName trig) = Some (fst (watchTrigger c pred))"
  by (auto simp: watchTrigger_def triggerLoop_acc split: option.splits if_splits)

lemma stopWatcherLocked_watchers: "watchers (snd (stopWatcherLocked c w)) = watchers c"
  by (simp add: stopWatcherLocked_def)

lemma stopAllLocked_watchers: "watchers (snd (stopAllLocked c ws)) = watchers c"
proof (induction ws arbitrary: c)
  case Nil
  show ?case by simp
next
  case (Cons w ws)
  obtain calls c1 where s: "stopWatcherLocked c w = (calls, c1)"
    by (cases "stopWatcherLocked c w")
  then have "watchers c1 = watchers c"
    using stopWatcherLocked_watchers [of c w] by simp
  then show ?case using Cons.IH [of c1] s by (auto split: prod.splits)
qed

lemma forgetWatcher_watchers:
  "watchers (snd (forgetWatcher c index scope tv ts))
     = fst (indexedWatchers_deleteWatcher (watchers c) index scope tv ts)"
  by (auto simp: forgetWatcher_def Let_def stopWatcherLocked_def split: prod.splits option.splits)

lemma terminateAllWatchers_watchers:
  "watchers (snd (terminateAllWatchers c)) = fst (indexedWatchers_terminateAll (watchers c))"
  by (simp add: terminateAllWatchers_def stopAllLocked_watchers split: prod.splits)

lemma registerWatcherLocked_watchers:
  "watchers (snd (registerWatcherLocked env c w allow g scope tv ts)) =
     (if fst (registerWatcherLocked env c w allow g scope tv ts)
      then indexedWatchers_addWatcher (watchers c) w (watcherIdx c) scope tv ts
      else watchers c)"
  by (simp add: registerWatcherLocked_def Let_def split: prod.splits)

lemma registerWatcherLocked_unchanged:
  "\<not> fst (registerWatcherLocked env c w allow g scope tv ts) \<Longrightarrow>
   snd (registerWatcherLocked env c w allow g scope tv ts) = c"
  by (cases "checkAndReadGeneration env")
     (auto simp: registerWatcherLocked_def Let_def split: if_splits)

subsection \<open>Watch\<close>

lemma watchOptions_fields [simp]:
  "ListOptions.ResourceVersion (watchOptions env opts) = ListOptions.ResourceVersion opts"
  "Predicate (watchOptions env opts) = Predicate opts"
  by (simp_all add: watchOptions_def)

lemma Watch_past_gate:
  assumes "\<not> (SendInitialEvents (watchOptions env opts) = None \<and> ListOptions.ResourceVersion opts = [])"
    and "ParseResourceVersion env (ListOptions.ResourceVersion opts) = Inr v"
    and "waitAndReadGeneration env = Inr g"
  shows "Watch env c key opts = watchAfterGate env c (watchOptions env opts) v g"
  using assms by (auto simp: Watch_def Let_def)

lemma watchAfterGate_cases:
  "(\<exists>err. watchAfterGate env c opts v g = (WatchHandle (ErrWatcher (newErrWatcher err)), c))
   \<or> (watchAfterGate env c opts v g
        = (WatchHandle (ImmediateCloseWatcher newImmediateCloseWatcher), c)
      \<and> \<not> fst (registerWatcherLocked env c (newCacheWatcher env)
                 (AllowWatchBookmarks (Predicate opts)) g (watchScope env (Predicate opts))
                 (fst (watchTrigger c (Predicate opts))) (snd (watchTrigger c (Predicate opts)))))
   \<or> (\<exists>st. watchAfterGate env c opts v g
        = (WatchHandle (CacheWatcher (newCacheWatcher env) st),
           snd (registerWatcherLocked env c (newCacheWatcher env)
                 (AllowWatchBookmarks (Predicate opts)) g (watchScope env (Predicate opts))
                 (fst (watchTrigger c (Predicate opts))) (snd (watchTrigger c (Predicate opts)))))
      \<and> fst (registerWatcherLocked env c (newCacheWatcher env)
                 (AllowWatchBookmarks (Predicate opts)) g (watchScope env (Predicate opts))
                 (fst (watchTrigger c (Predicate opts))) (snd (watchTrigger c (Predicate opts)))))"
proof -
  obtain tv ts where t: "watchTrigger c (Predicate opts) = (tv, ts)"
    by (cases "watchTrigger c (Predicate opts)")
  obtain a b where r: "registerWatcherLocked env c (newCacheWatcher env)
                 (AllowWatchBookmarks (Predicate opts)) g (watchScope env (Predicate opts))
                 tv ts = (a, b)"
    by (cases "registerWatcherLocked env c (newCacheWatcher env)
                 (AllowWatchBookmarks (Predicate opts)) g (watchScope env (Predicate opts))
                 tv ts")
  have unch: "\<not> a \<Longrightarrow> b = c"
    using registerWatcherLocked_unchanged [of env c "newCacheWatcher env"
        "AllowWatchBookmarks (Predicate opts)" g "watchScope env (Predicate opts)" tv ts] r
    by simp
  show ?thesis
    using unch
    by (auto simp: watchAfterGate_def Let_def t r split: sum.splits option.splits prod.splits)
qed

lemma newErrWatcher_shape:
  "\<exists>obj. newErrWatcher err
     = \<lparr>capacity = 1, buffered = [\<lparr>EventType = Error, EventObject = obj\<rparr>], closed = True\<rparr>"
  by (simp add: newErrWatcher_def makeChan_def sendChan_def closeChan_def)

lemma newErrWatcher_closed: "closed (newErrWatcher err)"
  by (simp add: newErrWatcher_def makeChan_def sendChan_def closeChan_def)

lemma watchAfterGate_no_error: "fst (watchAfterGate env c opts v g) \<noteq> WatchError e"
  using watchAfterGate_cases [of env c opts v g] by auto

lemma watchAfterGate_failures:
  "(\<forall>err. getBookmarkAfterResourceVersionLockedFunc env v opts = Inl err \<longrightarrow>
       watchAfterGate env c opts v g = (WatchHandle (ErrWatcher (newErrWatcher err)), c))
   \<and> (\<forall>err f. getBookmarkAfterResourceVersionLockedFunc env v opts = Inr f
         \<and> getStartResourceVersionForWatchLockedFunc env v opts = Inl err \<longrightarrow>
       watchAfterGate env c opts v g = (WatchHandle (ErrWatcher (newErrWatcher err)), c))
   \<and> (\<forall>err f s. getBookmarkAfterResourceVersionLockedFunc env v opts = Inr f
         \<and> getStartResourceVersionForWatchLockedFunc env v opts = Inr s
         \<and> snd (waitUntilWatchCacheFreshAndForceAllEvents env v opts) = Some err \<longrightarrow>
       watchAfterGate env c opts v g = (WatchHandle (ErrWatcher (newErrWatcher err)), c))
   \<and> (\<forall>err f s. getBookmarkAfterResourceVersionLockedFunc env v opts = Inr f
         \<and> getStartResourceVersionForWatchLockedFunc env v opts = Inr s
         \<and> snd (waitUntilWatchCacheFreshAndForceAllEvents env v opts) = None
         \<and> (if fst (waitUntilWatchCacheFreshAndForceAllEvents env v opts)
             then getIntervalFromStoreLocked env
             else getAllEventsSinceLocked env (s (watchCacheResourceVersion env))) = Inl err \<longrightarrow>
       watchAfterGate env c opts v g = (WatchHandle (ErrWatcher (newErrWatcher err)), c))"
  by (cases "waitUntilWatchCacheFreshAndForceAllEvents env v opts")
     (simp add: watchAfterGate_def Let_def split: prod.splits)

text \<open>
  C6. For a Watch call that is not handed to the store, whose resource version parses
  and which passes the readiness gate, every later failure (of the bookmark-after
  function, of the start-revision function, of the freshness wait, of the computation of
  the interval) comes back as an errWatcher handle with a \<^verbatim>\<open>nil\<close> error and the cacher
  untouched; the channel of an errWatcher holds exactly one event, of type Error, and is
  closed; and such a call never returns a Go error.
\<close>

theorem Watch_failures_in_band:
  assumes accepted: "\<not> (SendInitialEvents (watchOptions env opts) = None
                        \<and> ListOptions.ResourceVersion opts = [])"
    and parsed: "ParseResourceVersion env (ListOptions.ResourceVersion opts) = Inr v"
    and gate: "waitAndReadGeneration env = Inr g"
  shows
   "(\<forall>err. getBookmarkAfterResourceVersionLockedFunc env v (watchOptions env opts) = Inl err \<longrightarrow>
       Watch env c key opts = (WatchHandle (ErrWatcher (newErrWatcher err)), c))
   \<and> (\<forall>err f. getBookmarkAfterResourceVersionLockedFunc env v (watchOptions env opts) = Inr f
         \<and> getStartResourceVersionForWatchLockedFunc env v (watchOptions env opts) = Inl err \<longrightarrow>
       Watch env c key opts = (WatchHandle (ErrWatcher (newErrWatcher err)), c))
   \<and> (\<forall>err f s. getBookmarkAfterResourceVersionLockedFunc env v (watchOptions env opts) = Inr f
         \<and> getStartResourceVersionForWatchLockedFunc env v (watchOptions env opts) = Inr s
         \<and> snd (waitUntilWatchCacheFreshAndForceAllEvents env v (watchOptions env opts)) = Some err
         \<longrightarrow>
       Watch env c key opts = (WatchHandle (ErrWatcher (newErrWatcher err)), c))
   \<and> (\<forall>err f s. getBookmarkAfterResourceVersionLockedFunc env v (watchOptions env opts) = Inr f
         \<and> getStartResourceVersionForWatchLockedFunc env v (watchOptions env opts) = Inr s
         \<and> snd (waitUntilWatchCacheFreshAndForceAllEvents env v (watchOptions env opts)) = None
         \<and> (if fst (waitUntilWatchCacheFreshAndForceAllEvents env v (watchOptions env opts))
             then getIntervalFromStoreLocked env
             else getAllEventsSinceLocked env (s (watchCacheResourceVersion env))) = Inl err \<longrightarrow>
       Watch env c key opts = (WatchHandle (ErrWatcher (newErrWatcher err)), c))
   \<and> (\<forall>err. \<exists>obj. newErrWatcher err
         = \<lparr>capacity = 1, buffered = [\<lparr>EventType = Error, EventObject = obj\<rparr>], closed = True\<rparr>)
   \<and> (\<forall>e. fst (Watch env c key opts) \<noteq> WatchError e)"
proof -
  have w: "Watch env c key opts = watchAfterGate env c (watchOptions env opts) v g"
    using accepted parsed gate by (rule Watch_past_gate)
  show ?thesis
    unfolding w
    using watchAfterGate_failures [of env v "watchOptions env opts" c g]
      newErrWatcher_shape watchAfterGate_no_error [of env c "watchOptions env opts" v g]
    by blast
qed

text \<open>The sample versioner on the strings used below.\<close>

lemma sampleParse_2: "sampleParse ''2'' = Inr 2"
  by (simp add: sampleParse_def)

lemma sampleParse_5: "sampleParse ''5'' = Inr 5"
  by (simp add: sampleParse_def)

lemma sampleParse_0: "sampleParse ''0'' = Inr 0"
  by (simp add: sampleParse_def)

lemma sampleParse_bad: "sampleParse ''abc'' = Inl (PlainError ''invalid resource version'')"
  by (simp add: sampleParse_def)

lemma sampleAtoi_9: "sampleAtoi ''9'' = Inr 9"
  by (simp add: sampleAtoi_def)

theorem Watch_failures_in_band_witness:
  "\<not> (SendInitialEvents (watchOptions sampleEnv (sampleListOptions\<lparr>ListOptions.ResourceVersion := ''2''\<rparr>)) = None
       \<and> ListOptions.ResourceVersion (sampleListOptions\<lparr>ListOptions.ResourceVersion := ''2''\<rparr>) = [])
   \<and> ParseResourceVersion sampleEnv
        (ListOptions.ResourceVersion (sampleListOptions\<lparr>ListOptions.ResourceVersion := ''2''\<rparr>)) = Inr 2
   \<and> waitAndReadGeneration sampleEnv = Inr 1
   \<and> getAllEventsSinceLocked sampleEnv 2 = Inl (PlainError ''too old resource version'')
   \<and> Watch sampleEnv sampleCacher ''/pods'' (sampleListOptions\<lparr>ListOptions.ResourceVersion := ''2''\<rparr>)
       = (WatchHandle (ErrWatcher
            \<lparr>capacity = 1,
             buffered = [\<lparr>EventType = Error,
                          EventObject = StatusObject
                            \<lparr>StatusStatus = ''Failure'',
                             StatusMessage = ''too old resource version'',
                             StatusReason = ''InternalError'', StatusCode = 500\<rparr>\<rparr>],
             closed = True\<rparr>), sampleCacher)"
proof -
  let ?opts = "sampleListOptions\<lparr>ListOptions.ResourceVersion := ''2''\<rparr>"
  have a: "\<not> (SendInitialEvents (watchOptions sampleEnv ?opts) = None
               \<and> ListOptions.ResourceVersion ?opts = [])"
    by (simp add: sampleListOptions_def)
  have p: "ParseResourceVersion sampleEnv (ListOptions.ResourceVersion ?opts) = Inr 2"
    by (simp add: sampleEnv_def sampleListOptions_def sampleParse_2)
  have g: "waitAndReadGeneration sampleEnv = Inr 1"
    by (simp add: sampleEnv_def)
  have o: "watchOptions sampleEnv ?opts = ?opts"
    by (simp add: watchOptions_def sampleListOptions_def)
  have b: "getBookmarkAfterResourceVersionLockedFunc sampleEnv 2 ?opts = Inr (\<lambda>cacheRV. 0)"
    by (simp add: getBookmarkAfterResourceVersionLockedFunc_def sampleListOptions_def)
  have s: "getStartResourceVersionForWatchLockedFunc sampleEnv 2 ?opts = Inr (\<lambda>cacheRV. 2)"
    by (simp add: getStartResourceVersionForWatchLockedFunc_def sampleListOptions_def)
  have f: "waitUntilWatchCacheFreshAndForceAllEvents sampleEnv 2 ?opts = (False, None)"
    by (simp add: waitUntilWatchCacheFreshAndForceAllEvents_def sampleListOptions_def)
  have i: "getAllEventsSinceLocked sampleEnv 2 = Inl (PlainError ''too old resource version'')"
    by (simp add: sampleEnv_def)
  have "Watch sampleEnv sampleCacher ''/pods'' ?opts
      = (WatchHandle (ErrWatcher (newErrWatcher (PlainError ''too old resource version''))),
         sampleCacher)"
    using Watch_failures_in_band [OF a p g, of sampleCacher "''/pods''"] b s f i
    by (simp add: o)
  then show ?thesis
    using a p g i
    by (simp add: newErrWatcher_def makeChan_def sendChan_def closeChan_def)
qed

lemma newImmediateCloseWatcher_shape:
  "newImmediateCloseWatcher = \<lparr>capacity = 0, buffered = [], closed = True\<rparr>"
  by (simp add: newImmediateCloseWatcher_def makeChan_def closeChan_def)

lemma registerWatcherLocked_flip:
  "fst (checkAndReadGeneration env) \<noteq> g \<or> \<not> snd (checkAndReadGeneration env) \<Longrightarrow>
   registerWatcherLocked env c w allow g scope tv ts = (False, c)"
  by (cases "checkAndReadGeneration env") (auto simp: registerWatcherLocked_def)

lemma watchAfterGate_flip:
  assumes "fst (checkAndReadGeneration env) \<noteq> g \<or> \<not> snd (checkAndReadGeneration env)"
  shows "snd (watchAfterGate env c opts v g) = c
    \<and> (\<exists>ch. closed ch \<and> (fst (watchAfterGate env c opts v g) = WatchHandle (ErrWatcher ch)
          \<or> fst (watchAfterGate env c opts v g) = WatchHandle (ImmediateCloseWatcher ch)))"
proof -
  have r: "\<not> fst (registerWatcherLocked env c (newCacheWatcher env)
                 (AllowWatchBookmarks (Predicate opts)) g (watchScope env (Predicate opts))
                 (fst (watchTrigger c (Predicate opts))) (snd (watchTrigger c (Predicate opts))))"
    using registerWatcherLocked_flip [OF assms] by simp
  have i: "closed newImmediateCloseWatcher"
    by (simp add: newImmediateCloseWatcher_shape)
  show ?thesis
    using watchAfterGate_cases [of env c opts v g] r i newErrWatcher_closed
    by (metis fst_conv snd_conv)
qed

lemma watchAfterGate_flip_registration:
  assumes "fst (checkAndReadGeneration env) \<noteq> g \<or> \<not> snd (checkAndReadGeneration env)"
    and "getBookmarkAfterResourceVersionLockedFunc env v opts = Inr f"
    and "getStartResourceVersionForWatchLockedFunc env v opts = Inr s"
    and "snd (waitUntilWatchCacheFreshAndForceAllEvents env v opts) = None"
    and "(if fst (waitUntilWatchCacheFreshAndForceAllEvents env v opts)
          then getIntervalFromStoreLocked env
          else getAllEventsSinceLocked env (s (watchCacheResourceVersion env))) = Inr iv"
  shows "watchAfterGate env c opts v g
          = (WatchHandle (ImmediateCloseWatcher newImmediateCloseWatcher), c)"
proof -
  obtain tv ts where t: "watchTrigger c (Predicate opts) = (tv, ts)"
    by (cases "watchTrigger c (Predicate opts)")
  have r: "registerWatcherLocked env c (newCacheWatcher env)
                 (AllowWatchBookmarks (Predicate opts)) g (watchScope env (Predicate opts))
                 tv ts = (False, c)"
    using assms(1) by (rule registerWatcherLocked_flip)
  show ?thesis
    using assms(2-5)
    by (cases "waitUntilWatchCacheFreshAndForceAllEvents env v opts")
       (simp add: watchAfterGate_def Let_def t r)
qed

text \<open>
  C7. For a Watch call that is not handed to the store, whose resource version parses
  and which passes the readiness gate at generation \<open>g\<close>: if the gate, read again under
  the cacher lock, shows another generation or is not ready, the cacher is left as it was
  (nothing is added to the registry or to the bookmark buckets, the watcher index does
  not move) and the caller gets a handle whose channel is closed. When the steps before
  the lock succeed, that handle is the immediateCloseWatcher, with an empty closed
  channel, and the returned error is \<^verbatim>\<open>nil\<close>.
\<close>

theorem Watch_readiness_flip:
  assumes accepted: "\<not> (SendInitialEvents (watchOptions env opts) = None
                        \<and> ListOptions.ResourceVersion opts = [])"
    and parsed: "ParseResourceVersion env (ListOptions.ResourceVersion opts) = Inr v"
    and gate: "waitAndReadGeneration env = Inr g"
    and flip: "fst (checkAndReadGeneration env) \<noteq> g \<or> \<not> snd (checkAndReadGeneration env)"
  shows "snd (Watch env c key opts) = c
    \<and> (\<exists>ch. closed ch \<and> (fst (Watch env c key opts) = WatchHandle (ErrWatcher ch)
          \<or> fst (Watch env c key opts) = WatchHandle (ImmediateCloseWatcher ch)))
    \<and> (\<forall>f s iv.
          getBookmarkAfterResourceVersionLockedFunc env v (watchOptions env opts) = Inr f
          \<and> getStartResourceVersionForWatchLockedFunc env v (watchOptions env opts) = Inr s
          \<and> snd (waitUntilWatchCacheFreshAndForceAllEvents env v (watchOptions env opts)) = None
          \<and> (if fst (waitUntilWatchCacheFreshAndForceAllEvents env v (watchOptions env opts))
              then getIntervalFromStoreLocked env
              else getAllEventsSinceLocked env (s (watchCacheResourceVersion env))) = Inr iv
          \<longrightarrow> Watch env c key opts
                = (WatchHandle (ImmediateCloseWatcher
                     \<lparr>capacity = 0, buffered = [], closed = True\<rparr>), c))"
proof -
  have w: "Watch env c key opts = watchAfterGate env c (watchOptions env opts) v g"
    using accepted parsed gate by (rule Watch_past_gate)
  show ?thesis
    unfolding w
    using watchAfterGate_flip [OF flip, of c "watchOptions env opts" v]
      watchAfterGate_flip_registration [OF flip, of v "watchOptions env opts" _ _ _ c]
    by (simp add: newImmediateCloseWatcher_shape)
qed

theorem Watch_readiness_flip_witness:
  "\<not> (SendInitialEvents (watchOptions (sampleEnv\<lparr>checkAndReadGeneration := (2, True)\<rparr>)
                          sampleListOptions) = None
       \<and> ListOptions.ResourceVersion sampleListOptions = [])
   \<and> ParseResourceVersion (sampleEnv\<lparr>checkAndReadGeneration := (2, True)\<rparr>)
        (ListOptions.ResourceVersion sampleListOptions) = Inr 5
   \<and> waitAndReadGeneration (sampleEnv\<lparr>checkAndReadGeneration := (2, True)\<rparr>) = Inr 1
   \<and> fst (checkAndReadGeneration (sampleEnv\<lparr>checkAndReadGeneration := (2, True)\<rparr>)) \<noteq> 1
   \<and> Watch (sampleEnv\<lparr>checkAndReadGeneration := (2, True)\<rparr>) sampleCacher ''/pods''
        sampleListOptions
       = (WatchHandle (ImmediateCloseWatcher \<lparr>capacity = 0, buffered = [], closed = True\<rparr>),
          sampleCacher)"
proof -
  let ?env = "sampleEnv\<lparr>checkAndReadGeneration := (2, True)\<rparr>"
  let ?opts = "sampleListOptions"
  have a: "\<not> (SendInitialEvents (watchOptions ?env ?opts) = None
               \<and> ListOptions.ResourceVersion ?opts = [])"
    by (simp add: sampleListOptions_def)
  have p: "ParseResourceVersion ?env (ListOptions.ResourceVersion ?opts) = Inr 5"
    by (simp add: sampleEnv_def sampleListOptions_def sampleParse_5)
  have g: "waitAndReadGeneration ?env = Inr 1"
    by (simp add: sampleEnv_def)
  have fl: "fst (checkAndReadGeneration ?env) \<noteq> 1 \<or> \<not> snd (checkAndReadGeneration ?env)"
    by simp
  have o: "watchOptions ?env ?opts = ?opts"
    by (simp add: watchOptions_def sampleListOptions_def)
  have b: "getBookmarkAfterResourceVersionLockedFunc ?env 5 ?opts = Inr (\<lambda>cacheRV. 0)"
    by (simp add: getBookmarkAfterResourceVersionLockedFunc_def sampleListOptions_def)
  have s: "getStartResourceVersionForWatchLockedFunc ?env 5 ?opts = Inr (\<lambda>cacheRV. 5)"
    by (simp add: getStartResourceVersionForWatchLockedFunc_def sampleListOptions_def)
  have f: "waitUntilWatchCacheFreshAndForceAllEvents ?env 5 ?opts = (False, None)"
    by (simp add: waitUntilWatchCacheFreshAndForceAllEvents_def sampleListOptions_def)
  have i: "getAllEventsSinceLocked ?env 5 = Inr [6, 7]"
    by (simp add: sampleEnv_def)
  have "Watch ?env sampleCacher ''/pods'' ?opts
      = (WatchHandle (ImmediateCloseWatcher \<lparr>capacity = 0, buffered = [], closed = True\<rparr>),
         sampleCacher)"
    using Watch_readiness_flip [OF a p g fl, of sampleCacher "''/pods''"] b s f i
    by (simp add: o)
  then show ?thesis
    using a p g by simp
qed

lemma watchAfterGate_started:
  assumes "watchAfterGate env c opts v g = (WatchHandle (CacheWatcher w st), c')"
  shows "\<exists>s. getStartResourceVersionForWatchLockedFunc env v opts = Inr s
            \<and> startWatchRV st = s (watchCacheResourceVersion env)"
  using assms
  by (cases "waitUntilWatchCacheFreshAndForceAllEvents env v opts")
     (auto simp: watchAfterGate_def Let_def split: sum.splits option.splits prod.splits if_splits)

lemma Watch_started:
  assumes "Watch env c key opts = (WatchHandle (CacheWatcher w st), c')"
    and "ParseResourceVersion env (ListOptions.ResourceVersion opts) = Inr v"
  shows "\<exists>s. getStartResourceVersionForWatchLockedFunc env v (watchOptions env opts) = Inr s
            \<and> startWatchRV st = s (watchCacheResourceVersion env)"
proof -
  from assms obtain g where
    "watchAfterGate env c (watchOptions env opts) v g = (WatchHandle (CacheWatcher w st), c')"
    by (auto simp: Watch_def Let_def split: if_splits sum.splits)
  then show ?thesis by (rule watchAfterGate_started)
qed

lemma start_fn_cases:
  assumes "getStartResourceVersionForWatchLockedFunc env v opts = Inr s"
  shows "(SendInitialEvents opts = Some True \<longrightarrow> s cacheRV = v)
     \<and> (SendInitialEvents opts = Some False \<longrightarrow>
          (ListOptions.ResourceVersion opts \<noteq> [] \<and> v = 0 \<longrightarrow> s cacheRV = cacheRV)
        \<and> (ListOptions.ResourceVersion opts = [] \<longrightarrow>
              getCurrentResourceVersionFromStorage env = Inr (s cacheRV))
        \<and> (ListOptions.ResourceVersion opts \<noteq> [] \<and> v \<noteq> 0 \<longrightarrow> s cacheRV = v))"
  using assms
  by (auto simp: getStartResourceVersionForWatchLockedFunc_def
        getCommonResourceVersionLockedFunc_def split: if_splits sum.splits)

lemma start_fn_unset:
  "getStartResourceVersionForWatchLockedFunc env v opts = Inr s \<Longrightarrow>
   SendInitialEvents opts = None \<Longrightarrow> s cacheRV = v"
  by (auto simp: getStartResourceVersionForWatchLockedFunc_def)

lemma watchOptions_SendInitialEvents:
  "SendInitialEvents (watchOptions env opts)
     = (if WatchList env then SendInitialEvents opts else None)"
  by (simp add: watchOptions_def)

text \<open>
  C8 (amended). The start revision of an accepted watch (one for which Watch returns the
  registered cacheWatcher), with \<open>v\<close> the parsed requested revision. With the WatchList
  feature enabled: if the request's SendInitialEvents is true the watch starts at \<open>v\<close>;
  if it is false the watch starts at the watch cache's current revision when a revision
  string was supplied and parses to zero, at the backing store's current revision when no
  revision string was supplied, and at \<open>v\<close> otherwise. With the WatchList feature
  disabled Watch drops SendInitialEvents, and then, as when the request leaves it unset,
  the watch starts at \<open>v\<close>.
\<close>

theorem Watch_start_revision:
  assumes "Watch env c key opts = (WatchHandle (CacheWatcher w st), c')"
    and "ParseResourceVersion env (ListOptions.ResourceVersion opts) = Inr v"
  shows "(WatchList env \<and> SendInitialEvents opts = Some True \<longrightarrow> startWatchRV st = v)
     \<and> (WatchList env \<and> SendInitialEvents opts = Some False \<longrightarrow>
          (ListOptions.ResourceVersion opts \<noteq> [] \<and> v = 0 \<longrightarrow>
              startWatchRV st = watchCacheResourceVersion env)
        \<and> (ListOptions.ResourceVersion opts = [] \<longrightarrow>
              getCurrentResourceVersionFromStorage env = Inr (startWatchRV st))
        \<and> (ListOptions.ResourceVersion opts \<noteq> [] \<and> v \<noteq> 0 \<longrightarrow> startWatchRV st = v))
     \<and> (\<not> WatchList env \<or> SendInitialEvents opts = None \<longrightarrow> startWatchRV st = v)"
proof -
  obtain s where s: "getStartResourceVersionForWatchLockedFunc env v (watchOptions env opts) = Inr s"
    and st: "startWatchRV st = s (watchCacheResourceVersion env)"
    using Watch_started [OF assms] by blast
  have on: "WatchList env \<Longrightarrow>
      SendInitialEvents (watchOptions env opts) = SendInitialEvents opts"
    by (simp add: watchOptions_SendInitialEvents)
  have off: "\<not> WatchList env \<or> SendInitialEvents opts = None \<Longrightarrow>
      SendInitialEvents (watchOptions env opts) = None"
    by (auto simp: watchOptions_SendInitialEvents)
  have unset: "\<not> WatchList env \<or> SendInitialEvents opts = None \<Longrightarrow> startWatchRV st = v"
    using start_fn_unset [OF s off] st by simp
  show ?thesis
    using start_fn_cases [OF s, of "watchCacheResourceVersion env"] st on unset by auto
qed

lemmas sample_watch_defs =
  Watch_def watchAfterGate_def watchOptions_def registerWatcherLocked_def watchTrigger_def
  watchScope_def getBookmarkAfterResourceVersionLockedFunc_def
  getStartResourceVersionForWatchLockedFunc_def getCommonResourceVersionLockedFunc_def
  getCurrentResourceVersionFromStorage_def waitUntilWatchCacheFreshAndForceAllEvents_def
  sampleEnv_def sampleCacher_def sampleListOptions_def samplePredicate_def
  sampleParse_0 sampleParse_5 sampleAtoi_9 Let_def

lemma sample_watch_zero:
  "fst (Watch sampleEnv sampleCacher ''/pods''
         (sampleListOptions\<lparr>ListOptions.ResourceVersion := ''0'', SendInitialEvents := Some False\<rparr>))
   = WatchHandle (CacheWatcher 12
       \<lparr>cacheInterval = [], startWatchRV = 7, bookmarkAfterResourceVersion = 0\<rparr>)"
  by (simp add: sample_watch_defs)

lemma sample_watch_unset:
  "fst (Watch sampleEnv sampleCacher ''/pods''
         (sampleListOptions\<lparr>ListOptions.ResourceVersion := [], SendInitialEvents := Some False\<rparr>))
   = WatchHandle (CacheWatcher 12
       \<lparr>cacheInterval = [], startWatchRV = 9, bookmarkAfterResourceVersion = 0\<rparr>)"
  by (simp add: sample_watch_defs sampleParse_def)

lemma sample_watch_five:
  "fst (Watch sampleEnv sampleCacher ''/pods''
         (sampleListOptions\<lparr>SendInitialEvents := Some False\<rparr>))
   = WatchHandle (CacheWatcher 12
       \<lparr>cacheInterval = [6, 7], startWatchRV = 5, bookmarkAfterResourceVersion = 0\<rparr>)"
  by (simp add: sample_watch_defs)

lemma sample_watch_initial:
  "fst (Watch sampleEnv sampleCacher ''/pods''
         (sampleListOptions\<lparr>SendInitialEvents := Some True\<rparr>))
   = WatchHandle (CacheWatcher 12
       \<lparr>cacheInterval = [7], startWatchRV = 5, bookmarkAfterResourceVersion = 5\<rparr>)"
  by (simp add: sample_watch_defs)

theorem Watch_start_revision_witness:
  "startWatchRV \<lparr>cacheInterval = [] :: rv list, startWatchRV = 7,
                 bookmarkAfterResourceVersion = 0\<rparr> = watchCacheResourceVersion sampleEnv
   \<and> fst (Watch sampleEnv sampleCacher ''/pods''
         (sampleListOptions\<lparr>ListOptions.ResourceVersion := ''0'', SendInitialEvents := Some False\<rparr>))
     = WatchHandle (CacheWatcher 12
         \<lparr>cacheInterval = [], startWatchRV = 7, bookmarkAfterResourceVersion = 0\<rparr>)
   \<and> getCurrentResourceVersionFromStorage sampleEnv = Inr 9
   \<and> fst (Watch sampleEnv sampleCacher ''/pods''
         (sampleListOptions\<lparr>ListOptions.ResourceVersion := [], SendInitialEvents := Some False\<rparr>))
     = WatchHandle (CacheWatcher 12
         \<lparr>cacheInterval = [], startWatchRV = 9, bookmarkAfterResourceVersion = 0\<rparr>)
   \<and> fst (Watch sampleEnv sampleCacher ''/pods''
         (sampleListOptions\<lparr>SendInitialEvents := Some False\<rparr>))
     = WatchHandle (CacheWatcher 12
         \<lparr>cacheInterval = [6, 7], startWatchRV = 5, bookmarkAfterResourceVersion = 0\<rparr>)
   \<and> fst (Watch sampleEnv sampleCacher ''/pods''
         (sampleListOptions\<lparr>SendInitialEvents := Some True\<rparr>))
     = WatchHandle (CacheWatcher 12
         \<lparr>cacheInterval = [7], startWatchRV = 5, bookmarkAfterResourceVersion = 5\<rparr>)"
proof -
  let ?o0 = "sampleListOptions\<lparr>ListOptions.ResourceVersion := ''0'', SendInitialEvents := Some False\<rparr>"
  let ?oe = "sampleListOptions\<lparr>ListOptions.ResourceVersion := [], SendInitialEvents := Some False\<rparr>"
  let ?st0 = "\<lparr>cacheInterval = [] :: rv list, startWatchRV = 7, bookmarkAfterResourceVersion = 0\<rparr>"
  let ?ste = "\<lparr>cacheInterval = [] :: rv list, startWatchRV = 9, bookmarkAfterResourceVersion = 0\<rparr>"
  have w0: "Watch sampleEnv sampleCacher ''/pods'' ?o0
         = (WatchHandle (CacheWatcher 12 ?st0), snd (Watch sampleEnv sampleCacher ''/pods'' ?o0))"
    using sample_watch_zero by (simp add: prod_eq_iff)
  have p0: "ParseResourceVersion sampleEnv (ListOptions.ResourceVersion ?o0) = Inr 0"
    by (simp add: sampleEnv_def sampleListOptions_def sampleParse_0)
  have f0: "WatchList sampleEnv \<and> SendInitialEvents ?o0 = Some False"
    by (simp add: sampleEnv_def)
  have r0: "ListOptions.ResourceVersion ?o0 \<noteq> []"
    by simp
  have a: "startWatchRV ?st0 = watchCacheResourceVersion sampleEnv"
    using Watch_start_revision [OF w0 p0] f0 r0 by simp
  have we: "Watch sampleEnv sampleCacher ''/pods'' ?oe
         = (WatchHandle (CacheWatcher 12 ?ste), snd (Watch sampleEnv sampleCacher ''/pods'' ?oe))"
    using sample_watch_unset by (simp add: prod_eq_iff)
  have pe: "ParseResourceVersion sampleEnv (ListOptions.ResourceVersion ?oe) = Inr 0"
    by (simp add: sampleEnv_def sampleParse_def)
  have fe: "WatchList sampleEnv \<and> SendInitialEvents ?oe = Some False"
    by (simp add: sampleEnv_def)
  have b: "getCurrentResourceVersionFromStorage sampleEnv = Inr 9"
    using Watch_start_revision [OF we pe] fe by simp
  show ?thesis
    using a b sample_watch_zero sample_watch_unset sample_watch_five sample_watch_initial
    by simp
qed

text \<open>
  The claim as worded fails when the WatchList feature is disabled: a request with
  SendInitialEvents false and resource version \<open>''0''\<close> is accepted, and the watch starts
  at revision 0, not at the watch cache's revision 7.
\<close>

theorem Watch_start_revision_counterexample:
  "\<not> WatchList (sampleEnv\<lparr>WatchList := False\<rparr>)
   \<and> SendInitialEvents (sampleListOptions\<lparr>ListOptions.ResourceVersion := ''0'',
                           SendInitialEvents := Some False\<rparr>) = Some False
   \<and> ParseResourceVersion (sampleEnv\<lparr>WatchList := False\<rparr>) ''0'' = Inr 0
   \<and> watchCacheResourceVersion (sampleEnv\<lparr>WatchList := False\<rparr>) = 7
   \<and> fst (Watch (sampleEnv\<lparr>WatchList := False\<rparr>) sampleCacher ''/pods''
         (sampleListOptions\<lparr>ListOptions.ResourceVersion := ''0'',
                             SendInitialEvents := Some False\<rparr>))
     = WatchHandle (CacheWatcher 12
         \<lparr>cacheInterval = [7], startWatchRV = 0, bookmarkAfterResourceVersion = 0\<rparr>)"
  by (simp add: sample_watch_defs)

lemma Watch_state_cases:
  "(snd (Watch env c key opts) = c
      \<and> (\<forall>w st. fst (Watch env c key opts) \<noteq> WatchHandle (CacheWatcher w st)))
   \<or> (\<exists>st. fst (Watch env c key opts) = WatchHandle (CacheWatcher (newCacheWatcher env) st)
        \<and> watchers (snd (Watch env c key opts))
            = indexedWatchers_addWatcher (watchers c) (newCacheWatcher env) (watcherIdx c)
                (watchScope env (Predicate opts)) (fst (watchTrigger c (Predicate opts)))
                (snd (watchTrigger c (Predicate opts))))"
proof (cases "\<exists>v g. Watch env c key opts = watchAfterGate env c (watchOptions env opts) v g")
  case True
  then obtain v g where w: "Watch env c key opts = watchAfterGate env c (watchOptions env opts) v g"
    by blast
  show ?thesis
    unfolding w
    using watchAfterGate_cases [of env c "watchOptions env opts" v g]
      registerWatcherLocked_watchers [of env c "newCacheWatcher env"
        "AllowWatchBookmarks (Predicate opts)" g "watchScope env (Predicate opts)"
        "fst (watchTrigger c (Predicate opts))" "snd (watchTrigger c (Predicate opts))"]
    by (elim disjE exE conjE) simp_all
next
  case False
  then show ?thesis
    by (auto simp: Watch_def Let_def split: if_splits sum.splits)
qed

text \<open>
  C9. A watcher is in exactly one of the two maps of the registry. Take a cacher whose
  registry has no watcher in both maps, and a Watch call whose newly allocated watcher
  is not in the registry. Then after the call no watcher is in both maps; if the call
  registers the watcher, it files it under the current watcher index in
  \<^verbatim>\<open>valueWatchers[triggerValue]\<close> and not in \<^verbatim>\<open>allWatchers\<close> when trigger support was
  inferred, and in \<^verbatim>\<open>allWatchers[scope]\<close> and not in \<^verbatim>\<open>valueWatchers\<close> otherwise; trigger
  support is inferred exactly when a trigger index is configured, the predicate lists its
  name among its index fields and the field selector requires an exact match on it, the
  trigger value being the value required; and forgetting a watcher and terminating all
  watchers keep the two maps free of a common watcher.
\<close>

theorem registry_exclusive:
  assumes excl: "exclusive (watchers c)"
    and freshA: "\<not> inAllWatchers (watchers c) (newCacheWatcher env)"
    and freshV: "\<not> inValueWatchers (watchers c) (newCacheWatcher env)"
  shows "exclusive (watchers (snd (Watch env c key opts)))
     \<and> (\<forall>w st c'. Watch env c key opts = (WatchHandle (CacheWatcher w st), c') \<longrightarrow>
          (snd (watchTrigger c (Predicate opts)) \<longrightarrow>
             map_of (lookupWatchers (valueWatchers (watchers c'))
                       (fst (watchTrigger c (Predicate opts)))) (watcherIdx c) = Some w
             \<and> inValueWatchers (watchers c') w \<and> \<not> inAllWatchers (watchers c') w)
        \<and> (\<not> snd (watchTrigger c (Predicate opts)) \<longrightarrow>
             map_of (lookupWatchers (allWatchers (watchers c'))
                       (watchScope env (Predicate opts))) (watcherIdx c) = Some w
             \<and> inAllWatchers (watchers c') w \<and> \<not> inValueWatchers (watchers c') w))
     \<and> (snd (watchTrigger c (Predicate opts)) \<longleftrightarrow>
          (\<exists>trig. indexedTrigger c = Some trig
             \<and> indexName trig \<in> set (IndexFields (Predicate opts))
             \<and> RequiresExactMatch (Predicate opts) (indexName trig) \<noteq> None))
     \<and> (\<forall>trig. snd (watchTrigger c (Predicate opts)) \<and> indexedTrigger c = Some trig \<longrightarrow>
          RequiresExactMatch (Predicate opts) (indexName trig)
            = Some (fst (watchTrigger c (Predicate opts))))
     \<and> exclusive (watchers (snd (forgetWatcher c index scope tv ts)))
     \<and> exclusive (watchers (snd (terminateAllWatchers c)))"
proof -
  let ?w = "newCacheWatcher env"
  let ?r' = "indexedWatchers_addWatcher (watchers c) ?w (watcherIdx c)
                (watchScope env (Predicate opts)) (fst (watchTrigger c (Predicate opts)))
                (snd (watchTrigger c (Predicate opts)))"
  have e': "exclusive ?r'"
    using excl freshA freshV by (rule addWatcher_exclusive)
  have filed: "(snd (watchTrigger c (Predicate opts)) \<longrightarrow>
             map_of (lookupWatchers (valueWatchers ?r')
                       (fst (watchTrigger c (Predicate opts)))) (watcherIdx c) = Some ?w
             \<and> inValueWatchers ?r' ?w \<and> \<not> inAllWatchers ?r' ?w)
        \<and> (\<not> snd (watchTrigger c (Predicate opts)) \<longrightarrow>
             map_of (lookupWatchers (allWatchers ?r')
                       (watchScope env (Predicate opts))) (watcherIdx c) = Some ?w
             \<and> inAllWatchers ?r' ?w \<and> \<not> inValueWatchers ?r' ?w)"
    using addWatcher_filed [OF freshA freshV, of "watcherIdx c" "watchScope env (Predicate opts)"
        "fst (watchTrigger c (Predicate opts))" "snd (watchTrigger c (Predicate opts))"]
    by (simp add: Let_def)
  have 1: "exclusive (watchers (snd (Watch env c key opts)))"
    using Watch_state_cases [of env c key opts] excl e' by auto
  have 2: "\<forall>w st c'. Watch env c key opts = (WatchHandle (CacheWatcher w st), c') \<longrightarrow>
          (snd (watchTrigger c (Predicate opts)) \<longrightarrow>
             map_of (lookupWatchers (valueWatchers (watchers c'))
                       (fst (watchTrigger c (Predicate opts)))) (watcherIdx c) = Some w
             \<and> inValueWatchers (watchers c') w \<and> \<not> inAllWatchers (watchers c') w)
        \<and> (\<not> snd (watchTrigger c (Predicate opts)) \<longrightarrow>
             map_of (lookupWatchers (allWatchers (watchers c'))
                       (watchScope env (Predicate opts))) (watcherIdx c) = Some w
             \<and> inAllWatchers (watchers c') w \<and> \<not> inValueWatchers (watchers c') w)"
  proof (intro allI impI)
    fix w st c'
    assume W: "Watch env c key opts = (WatchHandle (CacheWatcher w st), c')"
    then have "w = ?w \<and> watchers c' = ?r'"
      using Watch_state_cases [of env c key opts] by auto
    then show "(snd (watchTrigger c (Predicate opts)) \<longrightarrow>
             map_of (lookupWatchers (valueWatchers (watchers c'))
                       (fst (watchTrigger c (Predicate opts)))) (watcherIdx c) = Some w
             \<and> inValueWatchers (watchers c') w \<and> \<not> inAllWatchers (watchers c') w)
        \<and> (\<not> snd (watchTrigger c (Predicate opts)) \<longrightarrow>
             map_of (lookupWatchers (allWatchers (watchers c'))
                       (watchScope env (Predicate opts))) (watcherIdx c) = Some w
             \<and> inAllWatchers (watchers c') w \<and> \<not> inValueWatchers (watchers c') w)"
      using filed by simp
  qed
  have 3: "snd (watchTrigger c (Predicate opts)) \<longleftrightarrow>
          (\<exists>trig. indexedTrigger c = Some trig
             \<and> indexName trig \<in> set (IndexFields (Predicate opts))
             \<and> RequiresExactMatch (Predicate opts) (indexName trig) \<noteq> None)"
    by (rule watchTrigger_supported)
  have 4: "\<forall>trig. snd (watchTrigger c (Predicate opts)) \<and> indexedTrigger c = Some trig \<longrightarrow>
          RequiresExactMatch (Predicate opts) (indexName trig)
            = Some (fst (watchTrigger c (Predicate opts)))"
    using watchTrigger_value by blast
  have 5: "exclusive (watchers (snd (forgetWatcher c index scope tv ts)))"
    using deleteWatcher_exclusive [OF excl] by (simp add: forgetWatcher_watchers)
  have 6: "exclusive (watchers (snd (terminateAllWatchers c)))"
    by (simp add: terminateAllWatchers_watchers terminateAll_exclusive)
  show ?thesis using 1 2 3 4 5 6 by blast
qed

lemma sample_watch_registry:
  "watchers (snd (Watch sampleEnv sampleCacher ''/pods'' sampleListOptions))
   = \<lparr>allWatchers = [(\<lparr>namespace = ''ns1'', name = []\<rparr>, [(0, 10)])],
      valueWatchers = [(''node-a'', [(1, 11), (2, 12)])]\<rparr>"
  by (simp add: sample_watch_defs indexedWatchers_addWatcher_def addTo_def
      lookupWatchers_def watchersMap_addWatcher_def)

lemma sample_watch_handle:
  "fst (Watch sampleEnv sampleCacher ''/pods'' sampleListOptions)
   = WatchHandle (CacheWatcher 12
       \<lparr>cacheInterval = [6, 7], startWatchRV = 5, bookmarkAfterResourceVersion = 0\<rparr>)"
  by (simp add: sample_watch_defs)

lemma sample_watch_trigger:
  "watchTrigger sampleCacher (Predicate sampleListOptions) = (''node-a'', True)"
  by (simp add: watchTrigger_def sampleCacher_def sampleListOptions_def samplePredicate_def)

theorem registry_exclusive_witness:
  "exclusive (watchers sampleCacher)
   \<and> \<not> inAllWatchers (watchers sampleCacher) (newCacheWatcher sampleEnv)
   \<and> \<not> inValueWatchers (watchers sampleCacher) (newCacheWatcher sampleEnv)
   \<and> fst (Watch sampleEnv sampleCacher ''/pods'' sampleListOptions)
       = WatchHandle (CacheWatcher 12
           \<lparr>cacheInterval = [6, 7], startWatchRV = 5, bookmarkAfterResourceVersion = 0\<rparr>)
   \<and> watchers (snd (Watch sampleEnv sampleCacher ''/pods'' sampleListOptions))
       = \<lparr>allWatchers = [(\<lparr>namespace = ''ns1'', name = []\<rparr>, [(0, 10)])],
          valueWatchers = [(''node-a'', [(1, 11), (2, 12)])]\<rparr>
   \<and> exclusive (watchers (snd (Watch sampleEnv sampleCacher ''/pods'' sampleListOptions)))
   \<and> inValueWatchers (watchers (snd (Watch sampleEnv sampleCacher ''/pods'' sampleListOptions))) 12
   \<and> \<not> inAllWatchers (watchers (snd (Watch sampleEnv sampleCacher ''/pods'' sampleListOptions))) 12
   \<and> exclusive (watchers (snd (forgetWatcher sampleCacher 1 \<lparr>namespace = [], name = []\<rparr>
                                  ''node-a'' True)))"
proof -
  let ?W = "Watch sampleEnv sampleCacher ''/pods'' sampleListOptions"
  let ?st = "\<lparr>cacheInterval = [6, 7] :: rv list, startWatchRV = 5,
              bookmarkAfterResourceVersion = 0\<rparr>"
  have e: "exclusive (watchers sampleCacher)"
    by (simp add: exclusive_def sampleCacher_def watchersIn_def)
  have a: "\<not> inAllWatchers (watchers sampleCacher) (newCacheWatcher sampleEnv)"
    by (simp add: inAllWatchers_def sampleCacher_def sampleEnv_def watchersIn_def)
  have v: "\<not> inValueWatchers (watchers sampleCacher) (newCacheWatcher sampleEnv)"
    by (simp add: inValueWatchers_def sampleCacher_def sampleEnv_def watchersIn_def)
  note T = registry_exclusive [OF e a v, of "''/pods''" sampleListOptions 1
      "\<lparr>namespace = [], name = []\<rparr>" "''node-a''" True]
  have w: "?W = (WatchHandle (CacheWatcher 12 ?st), snd ?W)"
    using sample_watch_handle by (simp add: prod_eq_iff)
  have x: "exclusive (watchers (snd ?W))"
    using T by blast
  have y: "inValueWatchers (watchers (snd ?W)) 12 \<and> \<not> inAllWatchers (watchers (snd ?W)) 12"
    using T w sample_watch_trigger by (metis snd_conv)
  have z: "exclusive (watchers (snd (forgetWatcher sampleCacher 1 \<lparr>namespace = [], name = []\<rparr>
                                  ''node-a'' True)))"
    using T by blast
  show ?thesis
    using e a v x y z sample_watch_handle sample_watch_registry by simp
qed

subsection \<open>Choosing the watchers of an event\<close>

lemma set_concat_lookup:
  "set (concat (map (\<lambda>triggerValue. map snd (lookupWatchers vw triggerValue)) vs))
     = (\<Union>v \<in> set vs. snd ` set (lookupWatchers vw v))"
  by auto

lemma triggerValues_cases:
  "triggerValuesThreadUnsafe c event =
     (case indexedTrigger c of
        None \<Rightarrow> ([], False)
      | Some trig \<Rightarrow>
          (let cur = indexerFunc trig (baseObjectThreadUnsafe (Object event)) in
           (case PrevObject event of
              None \<Rightarrow> ([cur], True)
            | Some prevObject \<Rightarrow>
                (let prev = indexerFunc trig (baseObjectThreadUnsafe prevObject)
                 in if prev \<noteq> cur then ([cur, prev], True) else ([cur], True)))))"
  by (auto simp: triggerValuesThreadUnsafe_def Let_def split: option.splits)

text \<open>
  C3. For an event that is not a bookmark, the set of watchers startDispatching leaves in
  \<^verbatim>\<open>watchersBuffer\<close> is the candidate set of the specification: the union of
  \<^verbatim>\<open>allWatchers\<close> at (namespace, name), (namespace, ""), ("", name) and ("", ""), together
  with, when a trigger index is configured, \<^verbatim>\<open>valueWatchers\<close> at the event's current trigger
  value and at its previous one when that differs, and otherwise every watcher in
  \<^verbatim>\<open>valueWatchers\<close>.
\<close>

theorem startDispatching_candidates:
  assumes "Type event \<noteq> Bookmark"
  shows "set (watchersBuffer (startDispatching env event c)) = candidateWatchers c event"
proof -
  let ?ns = "fieldOf (ObjFields event) ''metadata.namespace''"
  let ?nm = "fieldOf (ObjFields event) ''metadata.name''"
  show ?thesis
    using assms
    by (cases "?ns = []"; cases "?nm = []")
       (auto simp: startDispatching_def candidateWatchers_def allWatchersAt_def
          valueWatchersAt_def triggerValues_cases Let_def split: option.splits)
qed

lemma sample_buffer:
  "watchersBuffer (startDispatching sampleDispatchEnv sampleEvent sampleCacher) = [10, 11]"
  by (simp add: startDispatching_def triggerValues_cases sampleEvent_def sampleCacher_def
      lookupWatchers_def fieldOf_def Let_def)

theorem startDispatching_candidates_witness:
  "Type sampleEvent \<noteq> Bookmark
   \<and> watchersBuffer (startDispatching sampleDispatchEnv sampleEvent sampleCacher) = [10, 11]
   \<and> candidateWatchers sampleCacher sampleEvent = {10, 11}"
proof -
  have t: "Type sampleEvent \<noteq> Bookmark"
    by (simp add: sampleEvent_def)
  have "candidateWatchers sampleCacher sampleEvent = set [10, 11]"
    using startDispatching_candidates [OF t, of sampleDispatchEnv sampleCacher]
    by (simp only: sample_buffer)
  then show ?thesis using t sample_buffer by auto
qed

subsection \<open>The dispatcher loop\<close>

lemma dispatchEvents_nil: "dispatchEvents env l [] = ([], l)"
  by simp

lemma dispatchEvents_tick:
  "dispatchEvents env l (BookmarkTimerTick # rest) =
     ((if l = 0 then [PopExpiredWatchers]
       else case UpdateObject env (newFunc env) l of
              Inl err \<Rightarrow> []
            | Inr object \<Rightarrow> [DispatchEvent (bookmarkEvent object l)])
        @ fst (dispatchEvents env l rest),
      snd (dispatchEvents env l rest))"
  by (cases "dispatchEvents env l rest")
     (simp add: bookmarkEvent_def split: sum.splits)

lemma dispatchEvents_incoming:
  "dispatchEvents env l (IncomingEvent event # rest) =
     ((if Type event \<noteq> Bookmark then [DispatchEvent event] else [])
        @ fst (dispatchEvents env (ResourceVersion event) rest),
      snd (dispatchEvents env (ResourceVersion event) rest))"
  by (cases "dispatchEvents env (ResourceVersion event) rest") simp

lemma dispatchEvents_append:
  "running ins \<Longrightarrow>
   dispatchEvents env l (ins @ rest) =
     (fst (dispatchEvents env l ins) @ fst (dispatchEvents env (snd (dispatchEvents env l ins)) rest),
      snd (dispatchEvents env (snd (dispatchEvents env l ins)) rest))"
proof (induction env l ins rule: dispatchEvents.induct)
  case (1 env l)
  show ?case by simp
next
  case (2 env l rest')
  then show ?case by simp
next
  case (3 env l rest')
  then show ?case by simp
next
  case (4 env l event rest')
  then show ?case by (simp add: dispatchEvents_incoming del: dispatchEvents.simps)
next
  case (5 env l rest')
  then show ?case by (simp add: dispatchEvents_tick del: dispatchEvents.simps)
qed

lemma incomingEvents_append:
  "incomingEvents (xs @ ys) = incomingEvents xs @ incomingEvents ys"
  by (induction xs rule: incomingEvents.induct) simp_all

lemma dispatchEvents_last:
  "running ins \<Longrightarrow>
   snd (dispatchEvents env l ins) =
     (case rev (incomingEvents ins) of [] \<Rightarrow> l | event # earlier \<Rightarrow> ResourceVersion event)"
proof (induction env l ins rule: dispatchEvents.induct)
  case (4 env l event rest')
  then show ?case
    by (cases "rev (incomingEvents rest')")
       (simp_all add: dispatchEvents_incoming del: dispatchEvents.simps)
next
  case (5 env l rest')
  then show ?case by (simp add: dispatchEvents_tick del: dispatchEvents.simps)
qed simp_all

lemma dispatchEvents_startup_last:
  "running ins \<Longrightarrow> snd (dispatchEvents env 0 ins) = lastRevision ins"
  by (simp add: dispatchEvents_last lastRevision_def)

text \<open>
  C4 (amended). While the loop runs, a Bookmark event arriving on \<^verbatim>\<open>c.incoming\<close> is never
  dispatched, and any other arriving event is. On a tick of the bookmark timer the loop
  dispatches a Bookmark event at the last processed revision, which is the revision of
  the last event that arrived (of any type, a Bookmark from the storage layer included;
  0 when none has arrived), if and only if that revision is not 0 and the versioner can
  set it on the new object; when the revision is 0 the loop only pops the expired
  bookmark watchers, and when the versioner fails it does nothing.
\<close>

theorem dispatchEvents_bookmarks:
  assumes "running ins"
  shows "(Type event = Bookmark \<longrightarrow>
            fst (dispatchEvents env 0 (ins @ [IncomingEvent event]))
              = fst (dispatchEvents env 0 ins))
     \<and> (Type event \<noteq> Bookmark \<longrightarrow>
            fst (dispatchEvents env 0 (ins @ [IncomingEvent event]))
              = fst (dispatchEvents env 0 ins) @ [DispatchEvent event])
     \<and> fst (dispatchEvents env 0 (ins @ [BookmarkTimerTick]))
          = fst (dispatchEvents env 0 ins)
            @ (if lastRevision ins = 0 then [PopExpiredWatchers]
               else case UpdateObject env (newFunc env) (lastRevision ins) of
                      Inl err \<Rightarrow> []
                    | Inr object \<Rightarrow> [DispatchEvent (bookmarkEvent object (lastRevision ins))])"
  using assms
  by (simp add: dispatchEvents_append dispatchEvents_startup_last dispatchEvents_incoming
      dispatchEvents_tick dispatchEvents_nil del: dispatchEvents.simps)

theorem dispatchEvents_bookmarks_witness:
  "running [IncomingEvent sampleEvent]
   \<and> lastRevision [IncomingEvent sampleEvent] = 8
   \<and> fst (dispatchEvents sampleLoopEnv 0 [IncomingEvent sampleEvent, BookmarkTimerTick])
       = [DispatchEvent sampleEvent, DispatchEvent (bookmarkEvent (Plain []) 8)]"
proof -
  have r: "running [IncomingEvent sampleEvent]" by simp
  have l: "lastRevision [IncomingEvent sampleEvent] = 8"
    by (simp add: lastRevision_def sampleEvent_def)
  have d: "fst (dispatchEvents sampleLoopEnv 0 [IncomingEvent sampleEvent])
            = [DispatchEvent sampleEvent]"
    by (simp add: sampleEvent_def)
  show ?thesis
    using dispatchEvents_bookmarks [OF r, of sampleEvent sampleLoopEnv] r l d
    by (simp add: sampleLoopEnv_def del: dispatchEvents.simps)
qed

text \<open>
  The claim as worded fails in both directions. A Bookmark from the storage layer at
  revision 5 is the only event to arrive, and the next tick dispatches a Bookmark at 5
  although no real event has been processed. And after a real event at revision 8, a tick
  on which the versioner cannot set the revision dispatches nothing.
\<close>

theorem dispatchEvents_bookmarks_counterexample:
  "filter (\<lambda>e. Type e \<noteq> Bookmark)
      (incomingEvents [IncomingEvent (bookmarkEvent (Plain ''x'') 5), BookmarkTimerTick]) = []
   \<and> fst (dispatchEvents sampleLoopEnv 0
            [IncomingEvent (bookmarkEvent (Plain ''x'') 5), BookmarkTimerTick])
       = [DispatchEvent (bookmarkEvent (Plain []) 5)]
   \<and> filter (\<lambda>e. Type e \<noteq> Bookmark)
        (incomingEvents [IncomingEvent sampleEvent, BookmarkTimerTick]) = [sampleEvent]
   \<and> fst (dispatchEvents (sampleLoopEnv\<lparr>UpdateObject := \<lambda>obj v. Inl (PlainError ''no metadata'')\<rparr>)
            0 [IncomingEvent sampleEvent, BookmarkTimerTick])
       = [DispatchEvent sampleEvent]"
  by (simp add: bookmarkEvent_def sampleLoopEnv_def sampleEvent_def)

subsection \<open>Dispatching a bookmark\<close>

lemma startDispatching_bookmark:
  "Type event = Bookmark \<Longrightarrow>
   startDispatching env event c =
     startDispatchingBookmarkEventsLocked env (c\<lparr>dispatching := True, watchersBuffer := []\<rparr>)"
  by (simp add: startDispatching_def Let_def split: prod.splits)

lemma startDispatchingBookmark_fields:
  "blockedWatchers (startDispatchingBookmarkEventsLocked env c) = blockedWatchers c"
  "watchersToStop (startDispatchingBookmarkEventsLocked env c) = watchersToStop c"
  "watchers (startDispatchingBookmarkEventsLocked env c) = watchers c"
  by (simp_all add: startDispatchingBookmarkEventsLocked_def Let_def split: prod.splits)

lemma deliverEvent_bookmark:
  "Type event = Bookmark \<Longrightarrow>
   deliverEvent env event c = (map (\<lambda>watcher. NonblockingAdd watcher event) (watchersBuffer c), c)"
  by (simp add: deliverEvent_def)

lemma finishDispatching_fields:
  "fst (finishDispatching env c) = map StopLocked (watchersToStop c)"
  "blockedWatchers (snd (finishDispatching env c)) = blockedWatchers c"
  "watchers (snd (finishDispatching env c)) = watchers c"
  by (simp_all add: finishDispatching_def Let_def)

lemma dispatchEvent_bookmark:
  assumes "Type event = Bookmark"
  shows "dispatchEvent env event c =
     (map (\<lambda>watcher. NonblockingAdd watcher event) (watchersBuffer (startDispatching env event c))
        @ map StopLocked (watchersToStop c),
      snd (finishDispatching env (startDispatching env event c)))"
  using assms
  by (simp add: dispatchEvent_def Let_def deliverEvent_bookmark finishDispatching_fields
      startDispatching_bookmark startDispatchingBookmark_fields prod_eq_iff
      split: prod.splits)

lemma startDispatching_bookmark_oracle:
  "Type event = Bookmark \<Longrightarrow>
   startDispatching (env\<lparr>nonblockingAddOk := nb, addOk := ad\<rparr>) event c
     = startDispatching env event c"
  by (simp add: startDispatching_bookmark startDispatchingBookmarkEventsLocked_def)

lemma requeueExpired_oracle:
  "requeueExpired (env\<lparr>nonblockingAddOk := nb, addOk := ad\<rparr>) isStopped ws t
     = requeueExpired env isStopped ws t"
  by (induction ws arbitrary: t) simp_all

lemma finishDispatching_oracle:
  "finishDispatching (env\<lparr>nonblockingAddOk := nb, addOk := ad\<rparr>) c = finishDispatching env c"
  by (simp add: finishDispatching_def requeueExpired_oracle)

text \<open>
  C5. A Bookmark event is delivered by \<^verbatim>\<open>nonblockingAdd\<close> alone. The calls dispatchEvent
  makes for it are one \<^verbatim>\<open>nonblockingAdd\<close> per watcher in the buffer, followed only by the
  deferred \<^verbatim>\<open>stopLocked\<close> of the watchers that were already queued in \<^verbatim>\<open>watchersToStop\<close>
  before the dispatch: no blocking \<^verbatim>\<open>add\<close>, no use of the time budget or of the timer.
  The list of blocked watchers and the registry are left as they were, and nothing
  depends on which watchers have room in their channel: one that has none misses the
  bookmark and nothing else happens to it.
\<close>

theorem bookmark_delivery_nonblocking:
  assumes "Type event = Bookmark"
  shows "fst (dispatchEvent env event c)
           = map (\<lambda>watcher. NonblockingAdd watcher event)
                 (watchersBuffer (startDispatching env event c))
             @ map StopLocked (watchersToStop c)
     \<and> deliverEvent env event c
           = (map (\<lambda>watcher. NonblockingAdd watcher event) (watchersBuffer c), c)
     \<and> blockedWatchers (snd (dispatchEvent env event c)) = blockedWatchers c
     \<and> watchers (snd (dispatchEvent env event c)) = watchers c
     \<and> dispatchEvent (env\<lparr>nonblockingAddOk := nb, addOk := ad\<rparr>) event c
           = dispatchEvent env event c"
proof -
  have d: "dispatchEvent env event c =
     (map (\<lambda>watcher. NonblockingAdd watcher event) (watchersBuffer (startDispatching env event c))
        @ map StopLocked (watchersToStop c),
      snd (finishDispatching env (startDispatching env event c)))"
    using assms by (rule dispatchEvent_bookmark)
  have d': "dispatchEvent (env\<lparr>nonblockingAddOk := nb, addOk := ad\<rparr>) event c =
     (map (\<lambda>watcher. NonblockingAdd watcher event) (watchersBuffer (startDispatching env event c))
        @ map StopLocked (watchersToStop c),
      snd (finishDispatching env (startDispatching env event c)))"
    using dispatchEvent_bookmark [OF assms, of "env\<lparr>nonblockingAddOk := nb, addOk := ad\<rparr>" c]
    by (simp add: startDispatching_bookmark_oracle [OF assms] finishDispatching_oracle)
  have b: "blockedWatchers (snd (dispatchEvent env event c)) = blockedWatchers c"
    using assms
    by (simp add: d finishDispatching_fields startDispatching_bookmark
        startDispatchingBookmark_fields)
  have w: "watchers (snd (dispatchEvent env event c)) = watchers c"
    using assms
    by (simp add: d finishDispatching_fields startDispatching_bookmark
        startDispatchingBookmark_fields)
  show ?thesis
    using d d' b w deliverEvent_bookmark [OF assms] by simp
qed

lemma sample_popExpired:
  "popExpiredWatchers 5 \<lparr>watchersBuckets = [(3, [11::nat])], startBucketID = 0\<rparr>
     = ([[11]], \<lparr>watchersBuckets = [], startBucketID = 6\<rparr>)"
  by (simp add: popExpiredWatchers_def)

lemma sample_bookmark_buffer:
  "watchersBuffer (startDispatching sampleDispatchEnv (bookmarkEvent (Plain []) 8) sampleCacher)
     = [11]"
  by (simp add: startDispatching_bookmark bookmarkEvent_def
      startDispatchingBookmarkEventsLocked_def sampleCacher_def sampleDispatchEnv_def
      sample_popExpired Let_def)

theorem bookmark_delivery_nonblocking_witness:
  "Type (bookmarkEvent (Plain []) 8 :: string watchCacheEvent) = Bookmark
   \<and> \<not> nonblockingAddOk sampleDispatchEnv 11
   \<and> fst (dispatchEvent sampleDispatchEnv (bookmarkEvent (Plain []) 8) sampleCacher)
       = [NonblockingAdd 11 (bookmarkEvent (Plain []) 8)]
   \<and> blockedWatchers (snd (dispatchEvent sampleDispatchEnv (bookmarkEvent (Plain []) 8)
                              sampleCacher)) = []"
proof -
  have t: "Type (bookmarkEvent (Plain []) 8 :: string watchCacheEvent) = Bookmark"
    by (simp add: bookmarkEvent_def)
  have n: "\<not> nonblockingAddOk sampleDispatchEnv 11"
    by (simp add: sampleDispatchEnv_def)
  have s: "watchersToStop sampleCacher = []" "blockedWatchers sampleCacher = []"
    by (simp_all add: sampleCacher_def)
  show ?thesis
    using bookmark_delivery_nonblocking [OF t, of sampleDispatchEnv sampleCacher] t n
    by (simp add: sample_bookmark_buffer s)
qed

subsection \<open>Get\<close>

text \<open>
  C1 (amended). Get hands the call to the backing store when the resource version is the
  empty string. Otherwise it parses the resource version and returns a parse failure as
  the error; it hands the call to the store when the parsed revision is 0 and the cache
  is not ready. In every other case it waits for readiness (a failed wait comes back as
  ServiceUnavailable), checks the destination pointer, waits for the watch cache to be
  fresh at the revision (a failure of either comes back as the error) and then returns
  the cached current value of the key, or, when the key is not in the cache, a
  KeyNotFound error carrying the revision at which the cache was read, or success with
  the zero value when IgnoreNotFound is set. An item that is not a store element is an
  error.
\<close>

theorem Get_routing:
  "(GetOptions.ResourceVersion opts = [] \<longrightarrow> Get env key opts = GetDelegated key opts)
   \<and> (\<forall>err. GetOptions.ResourceVersion opts \<noteq> []
         \<and> ParseResourceVersion env (GetOptions.ResourceVersion opts) = Inl err
        \<longrightarrow> Get env key opts = GetError err)
   \<and> (GetOptions.ResourceVersion opts \<noteq> []
         \<and> ParseResourceVersion env (GetOptions.ResourceVersion opts) = Inr 0
         \<and> \<not> readyCheck env
        \<longrightarrow> Get env key opts = GetDelegated key opts)
   \<and> (\<forall>getRV. GetOptions.ResourceVersion opts \<noteq> []
         \<and> ParseResourceVersion env (GetOptions.ResourceVersion opts) = Inr getRV
         \<and> (getRV \<noteq> 0 \<or> readyCheck env)
        \<longrightarrow>
          (\<forall>err. readyWait env = Some err \<longrightarrow>
             Get env key opts = GetError (NewServiceUnavailable (Error_text err)))
        \<and> (\<forall>err. readyWait env = None \<and> EnforcePtr env = Some err \<longrightarrow>
             Get env key opts = GetError err)
        \<and> (\<forall>err. readyWait env = None \<and> EnforcePtr env = None
               \<and> WaitUntilFreshAndGet env getRV key = Inl err \<longrightarrow>
             Get env key opts = GetError err)
        \<and> (\<forall>obj readResourceVersion. readyWait env = None \<and> EnforcePtr env = None
               \<and> WaitUntilFreshAndGet env getRV key = Inr (obj, readResourceVersion) \<longrightarrow>
             Get env key opts =
               (case obj of
                  Some (StoreElement elem) \<Rightarrow> GetFound (storeElement.Object elem)
                | Some NotStoreElement \<Rightarrow>
                    GetError (PlainError ''non *storeElement returned from storage'')
                | None \<Rightarrow>
                    if IgnoreNotFound opts then GetZero
                    else GetError (KeyNotFoundError key readResourceVersion))))"
  by (auto simp: Get_def NewKeyNotFoundError_def split: option.splits cacheItem.splits)

lemmas sample_get_defs = Get_def sampleEnv_def sampleParse_0 sampleParse_5 sampleParse_bad
  samplePod_def NewKeyNotFoundError_def NewServiceUnavailable_def

theorem Get_routing_witness:
  "Get sampleEnv ''/pods/ns1/pod1'' \<lparr>IgnoreNotFound = False, GetOptions.ResourceVersion = []\<rparr>
     = GetDelegated ''/pods/ns1/pod1'' \<lparr>IgnoreNotFound = False, GetOptions.ResourceVersion = []\<rparr>
   \<and> Get (sampleEnv\<lparr>readyCheck := False\<rparr>) ''/pods/ns1/pod1''
         \<lparr>IgnoreNotFound = False, GetOptions.ResourceVersion = ''0''\<rparr>
     = GetDelegated ''/pods/ns1/pod1'' \<lparr>IgnoreNotFound = False, GetOptions.ResourceVersion = ''0''\<rparr>
   \<and> Get sampleEnv ''/pods/ns1/pod1'' \<lparr>IgnoreNotFound = False, GetOptions.ResourceVersion = ''5''\<rparr>
     = GetFound (Plain ''node-a'')
   \<and> Get sampleEnv ''/pods/ns1/pod9'' \<lparr>IgnoreNotFound = False, GetOptions.ResourceVersion = ''5''\<rparr>
     = GetError (KeyNotFoundError ''/pods/ns1/pod9'' 7)
   \<and> Get sampleEnv ''/pods/ns1/pod9'' \<lparr>IgnoreNotFound = True, GetOptions.ResourceVersion = ''5''\<rparr>
     = GetZero"
proof -
  let ?o = "\<lambda>i r. \<lparr>IgnoreNotFound = i, GetOptions.ResourceVersion = r\<rparr>"
  have p5: "ParseResourceVersion sampleEnv ''5'' = Inr 5"
    and p0: "ParseResourceVersion (sampleEnv\<lparr>readyCheck := False\<rparr>) ''0'' = Inr 0"
    and nr: "\<not> readyCheck (sampleEnv\<lparr>readyCheck := False\<rparr>)"
    and rw: "readyWait sampleEnv = None" and ep: "EnforcePtr sampleEnv = None"
    and g1: "WaitUntilFreshAndGet sampleEnv 5 ''/pods/ns1/pod1''
               = Inr (Some (StoreElement samplePod), 7)"
    and g9: "WaitUntilFreshAndGet sampleEnv 5 ''/pods/ns1/pod9'' = Inr (None, 7)"
    by (simp_all add: sampleEnv_def sampleParse_5 sampleParse_0)
  have a: "Get sampleEnv ''/pods/ns1/pod1'' (?o False []) = GetDelegated ''/pods/ns1/pod1'' (?o False [])"
    using Get_routing [of "?o False []" sampleEnv "''/pods/ns1/pod1''"] by simp
  have b: "Get (sampleEnv\<lparr>readyCheck := False\<rparr>) ''/pods/ns1/pod1'' (?o False ''0'')
         = GetDelegated ''/pods/ns1/pod1'' (?o False ''0'')"
    using Get_routing [of "?o False ''0''" "sampleEnv\<lparr>readyCheck := False\<rparr>" "''/pods/ns1/pod1''"]
      p0 nr by simp
  have c: "Get sampleEnv ''/pods/ns1/pod1'' (?o False ''5'') = GetFound (Plain ''node-a'')"
    using Get_routing [of "?o False ''5''" sampleEnv "''/pods/ns1/pod1''"] p5 rw ep g1
    by (simp add: samplePod_def)
  have d: "Get sampleEnv ''/pods/ns1/pod9'' (?o False ''5'')
         = GetError (KeyNotFoundError ''/pods/ns1/pod9'' 7)"
    using Get_routing [of "?o False ''5''" sampleEnv "''/pods/ns1/pod9''"] p5 rw ep g9
    by simp
  have e: "Get sampleEnv ''/pods/ns1/pod9'' (?o True ''5'') = GetZero"
    using Get_routing [of "?o True ''5''" sampleEnv "''/pods/ns1/pod9''"] p5 rw ep g9
    by simp
  show ?thesis using a b c d e by simp
qed

text \<open>
  The claim as worded leaves no room for a failure. A resource version that does not
  parse is neither handed to the store nor served from the cache: the parse error is
  returned before any wait. And a failed readiness wait is returned as
  ServiceUnavailable.
\<close>

theorem Get_routing_counterexample:
  "Get sampleEnv ''/pods/ns1/pod1'' \<lparr>IgnoreNotFound = False, GetOptions.ResourceVersion = ''abc''\<rparr>
     = GetError (PlainError ''invalid resource version'')
   \<and> Get (sampleEnv\<lparr>readyWait := Some (PlainError ''context canceled'')\<rparr>) ''/pods/ns1/pod1''
        \<lparr>IgnoreNotFound = False, GetOptions.ResourceVersion = ''5''\<rparr>
     = GetError (StatusError \<lparr>StatusStatus = ''Failure'', StatusMessage = ''context canceled'',
                              StatusReason = ''ServiceUnavailable'', StatusCode = 503\<rparr>)"
  by (simp add: sample_get_defs)

subsection \<open>GetList\<close>

lemma shouldDelegateList_iff:
  "shouldDelegateList pagingEnabled opts \<longleftrightarrow>
     ListOptions.ResourceVersion opts = []
     \<or> (pagingEnabled \<and> Continue (Predicate opts) \<noteq> [])
     \<or> (pagingEnabled \<and> 0 < Limit (Predicate opts) \<and> ListOptions.ResourceVersion opts \<noteq> ''0'')
     \<or> (ResourceVersionMatch opts \<noteq> []
          \<and> ResourceVersionMatch opts \<noteq> ResourceVersionMatchNotOlderThan)"
  by (auto simp: shouldDelegateList_def Let_def)

lemma GetList_delegated_iff:
  "(\<exists>k os. GetList env key opts = ListDelegated k os) \<longleftrightarrow>
     shouldDelegateList (APIListChunking env) opts
     \<or> (ParseResourceVersion env (ListOptions.ResourceVersion opts) = Inr 0 \<and> \<not> readyCheck env)"
  by (auto simp: GetList_def split: sum.splits option.splits prod.splits if_splits)

lemma GetList_delegated_same:
  "GetList env key opts = ListDelegated k os \<Longrightarrow> k = key \<and> os = opts"
  by (auto simp: GetList_def split: sum.splits option.splits prod.splits if_splits)

lemma GetList_served:
  assumes "\<not> shouldDelegateList (APIListChunking env) opts"
    and "ParseResourceVersion env (ListOptions.ResourceVersion opts) = Inr listRV"
    and "listRV \<noteq> 0 \<or> readyCheck env"
    and "readyWait env = None" "GetItemsPtr env = None" "EnforcePtr env = None"
    and "listValIsSlice env"
    and "listItems env listRV key (Predicate opts) (Recursive opts)
           = Inr (objs, readResourceVersion, indexUsed)"
    and "selectObjects (filterWithAttrsFunction env key (Predicate opts)) objs []
           = Inr selectedObjects"
    and "UpdateList env readResourceVersion = None"
  shows "GetList env key opts = ListServed selectedObjects readResourceVersion"
  using assms by (auto simp: GetList_def)

lemma GetList_parse_error:
  "\<not> shouldDelegateList (APIListChunking env) opts \<Longrightarrow>
   ParseResourceVersion env (ListOptions.ResourceVersion opts) = Inl err \<Longrightarrow>
   GetList env key opts = ListError err"
  by (simp add: GetList_def)

text \<open>
  C2 (amended). GetList hands the request to the backing store if and only if at least
  one of the following holds: the resource version is the empty string; chunking is
  enabled and a non-empty continuation token is present; chunking is enabled and a
  positive limit is combined with a resource version other than \<open>''0''\<close>;
  ResourceVersionMatch is set to a value other than empty or NotOlderThan; or the
  resource version parses to 0 and the cache is not ready. The store is handed the same
  key and options. In all other cases a resource version that does not parse is returned
  as the error, and otherwise the list is served from the cache: when the readiness wait,
  the checks of the list object, the freshness wait and the versioner succeed, the result
  is the cached objects that pass the filter, at the revision the cache was read at.
\<close>

theorem GetList_delegation:
  "((\<exists>k os. GetList env key opts = ListDelegated k os) \<longleftrightarrow>
       ListOptions.ResourceVersion opts = []
       \<or> (APIListChunking env \<and> Continue (Predicate opts) \<noteq> [])
       \<or> (APIListChunking env \<and> 0 < Limit (Predicate opts)
            \<and> ListOptions.ResourceVersion opts \<noteq> ''0'')
       \<or> (ResourceVersionMatch opts \<noteq> []
            \<and> ResourceVersionMatch opts \<noteq> ResourceVersionMatchNotOlderThan)
       \<or> (ParseResourceVersion env (ListOptions.ResourceVersion opts) = Inr 0
            \<and> \<not> readyCheck env))
   \<and> (\<forall>k os. GetList env key opts = ListDelegated k os \<longrightarrow> k = key \<and> os = opts)
   \<and> (\<forall>err. \<not> shouldDelegateList (APIListChunking env) opts
          \<and> ParseResourceVersion env (ListOptions.ResourceVersion opts) = Inl err
        \<longrightarrow> GetList env key opts = ListError err)
   \<and> (\<forall>listRV objs readResourceVersion indexUsed selectedObjects.
          \<not> shouldDelegateList (APIListChunking env) opts
          \<and> ParseResourceVersion env (ListOptions.ResourceVersion opts) = Inr listRV
          \<and> (listRV \<noteq> 0 \<or> readyCheck env)
          \<and> readyWait env = None \<and> GetItemsPtr env = None \<and> EnforcePtr env = None
          \<and> listValIsSlice env
          \<and> listItems env listRV key (Predicate opts) (Recursive opts)
               = Inr (objs, readResourceVersion, indexUsed)
          \<and> selectObjects (filterWithAttrsFunction env key (Predicate opts)) objs []
               = Inr selectedObjects
          \<and> UpdateList env readResourceVersion = None
        \<longrightarrow> GetList env key opts = ListServed selectedObjects readResourceVersion)"
proof -
  have 1: "(\<exists>k os. GetList env key opts = ListDelegated k os) \<longleftrightarrow>
       ListOptions.ResourceVersion opts = []
       \<or> (APIListChunking env \<and> Continue (Predicate opts) \<noteq> [])
       \<or> (APIListChunking env \<and> 0 < Limit (Predicate opts)
            \<and> ListOptions.ResourceVersion opts \<noteq> ''0'')
       \<or> (ResourceVersionMatch opts \<noteq> []
            \<and> ResourceVersionMatch opts \<noteq> ResourceVersionMatchNotOlderThan)
       \<or> (ParseResourceVersion env (ListOptions.ResourceVersion opts) = Inr 0
            \<and> \<not> readyCheck env)"
    unfolding GetList_delegated_iff shouldDelegateList_iff by blast
  have 2: "\<forall>k os. GetList env key opts = ListDelegated k os \<longrightarrow> k = key \<and> os = opts"
    using GetList_delegated_same by blast
  have 3: "\<forall>err. \<not> shouldDelegateList (APIListChunking env) opts
          \<and> ParseResourceVersion env (ListOptions.ResourceVersion opts) = Inl err
        \<longrightarrow> GetList env key opts = ListError err"
    using GetList_parse_error by blast
  have 4: "\<forall>listRV objs readResourceVersion indexUsed selectedObjects.
          \<not> shouldDelegateList (APIListChunking env) opts
          \<and> ParseResourceVersion env (ListOptions.ResourceVersion opts) = Inr listRV
          \<and> (listRV \<noteq> 0 \<or> readyCheck env)
          \<and> readyWait env = None \<and> GetItemsPtr env = None \<and> EnforcePtr env = None
          \<and> listValIsSlice env
          \<and> listItems env listRV key (Predicate opts) (Recursive opts)
               = Inr (objs, readResourceVersion, indexUsed)
          \<and> selectObjects (filterWithAttrsFunction env key (Predicate opts)) objs []
               = Inr selectedObjects
          \<and> UpdateList env readResourceVersion = None
        \<longrightarrow> GetList env key opts = ListServed selectedObjects readResourceVersion"
    using GetList_served by blast
  show ?thesis using 1 2 3 4 by blast
qed

lemmas sample_list_defs = GetList_def shouldDelegateList_def listItems_def
  filterWithAttrsFunction_def ResourceVersionMatchNotOlderThan_def
  sampleEnv_def sampleListOptions_def samplePredicate_def samplePod_def
  sampleParse_0 sampleParse_5 Let_def

lemma sample_list_served:
  "GetList sampleEnv ''/pods'' sampleListOptions = ListServed [Plain ''node-a''] 7"
  by (simp add: sample_list_defs)

theorem GetList_delegation_witness:
  "GetList sampleEnv ''/pods'' (sampleListOptions\<lparr>ListOptions.ResourceVersion := []\<rparr>)
     = ListDelegated ''/pods'' (sampleListOptions\<lparr>ListOptions.ResourceVersion := []\<rparr>)
   \<and> GetList sampleEnv ''/pods'' sampleListOptions = ListServed [Plain ''node-a''] 7
   \<and> (\<nexists>k os. GetList sampleEnv ''/pods'' sampleListOptions = ListDelegated k os)"
proof -
  let ?oe = "sampleListOptions\<lparr>ListOptions.ResourceVersion := []\<rparr>"
  have "\<exists>k os. GetList sampleEnv ''/pods'' ?oe = ListDelegated k os"
    using GetList_delegation [of sampleEnv "''/pods''" ?oe] by simp
  then have a: "GetList sampleEnv ''/pods'' ?oe = ListDelegated ''/pods'' ?oe"
    using GetList_delegation [of sampleEnv "''/pods''" ?oe] by blast
  have c: "ListOptions.ResourceVersion sampleListOptions = ''5''"
       "Continue (Predicate sampleListOptions) = []"
       "Limit (Predicate sampleListOptions) = 0"
       "ResourceVersionMatch sampleListOptions = []"
       "ParseResourceVersion sampleEnv ''5'' = Inr 5"
    by (simp_all add: sampleListOptions_def samplePredicate_def sampleEnv_def sampleParse_5)
  have n: "\<nexists>k os. GetList sampleEnv ''/pods'' sampleListOptions = ListDelegated k os"
    using GetList_delegation [of sampleEnv "''/pods''" sampleListOptions] c by simp
  show ?thesis using a n sample_list_served by simp
qed

text \<open>
  The claim as worded fails in both directions. With resource version \<open>''0''\<close>, no
  continuation token, no limit and no ResourceVersionMatch, a cache that is not ready
  hands the list to the store. And with chunking disabled, a limit of 5 at resource
  version \<open>''5''\<close> is served from the cache.
\<close>

theorem GetList_delegation_counterexample:
  "ListOptions.ResourceVersion (sampleListOptions\<lparr>ListOptions.ResourceVersion := ''0''\<rparr>) = ''0''
   \<and> Continue (Predicate sampleListOptions) = []
   \<and> Limit (Predicate sampleListOptions) = 0
   \<and> ResourceVersionMatch sampleListOptions = []
   \<and> GetList (sampleEnv\<lparr>readyCheck := False\<rparr>) ''/pods''
        (sampleListOptions\<lparr>ListOptions.ResourceVersion := ''0''\<rparr>)
     = ListDelegated ''/pods'' (sampleListOptions\<lparr>ListOptions.ResourceVersion := ''0''\<rparr>)
   \<and> GetList (sampleEnv\<lparr>APIListChunking := False\<rparr>) ''/pods''
        (sampleListOptions\<lparr>Predicate := samplePredicate\<lparr>Limit := 5\<rparr>\<rparr>)
     = ListServed [Plain ''node-a''] 7"
  by (simp add: sample_list_defs)

end
